theory Spec2Isabelle
  imports Complex_Main
begin

section \<open>Errors and the error monad\<close>

text \<open>
  The exceptions the solver can raise.  \<open>External\<close> stands for any exception coming out of
  a collaborator that is not part of \<open>steplinearuvlm.py\<close> (settings parsing, the velocity
  generator, the assembly of the linear system); \<open>MissingHistory\<close> is the stepper's
  missing previous-input failure.
\<close>

datatype error =
    IndexError
  | ValueError
  | NameError
  | AttributeError
  | KeyError
  | TypeError
  | MissingHistory
  | External string

text \<open>Sequencing of two computations that may raise: the first exception wins.\<close>

fun ebind :: "error + 'b \<Rightarrow> ('b \<Rightarrow> error + 'c) \<Rightarrow> error + 'c" where
  "ebind (Inl e) f = Inl e"
| "ebind (Inr x) f = f x"

text \<open>A list comprehension \<open>[f(i) for i in ...]\<close> whose body may raise.\<close>

fun mapM :: "('b \<Rightarrow> error + 'c) \<Rightarrow> 'b list \<Rightarrow> error + 'c list" where
  "mapM f [] = Inr []"
| "mapM f (x # xs) = ebind (f x) (\<lambda>y. ebind (mapM f xs) (\<lambda>ys. Inr (y # ys)))"

text \<open>\<open>xs[i]\<close> on a Python list, for an index that is not negative.\<close>

definition getitem :: "'b list \<Rightarrow> nat \<Rightarrow> error + 'b" where
  "getitem xs i = (if i < length xs then Inr (xs ! i) else Inl IndexError)"

text \<open>\<open>xs[-k]\<close> on a Python list, for \<open>k > 0\<close>.\<close>

definition getitem_neg :: "'b list \<Rightarrow> nat \<Rightarrow> error + 'b" where
  "getitem_neg xs k =
     (if 0 < k \<and> k \<le> length xs then Inr (xs ! (length xs - k)) else Inl IndexError)"

text \<open>\<open>range(n)\<close> for a Python integer \<open>n\<close>: empty when \<open>n\<close> is not positive.\<close>

definition range_py :: "int \<Rightarrow> nat list" where
  "range_py n = [0 ..< nat n]"

section \<open>numpy arrays\<close>

text \<open>
  An n-dimensional array is its shape together with its elements in row-major (C) order,
  the first axis varying slowest.  One-dimensional arrays (the packed vectors) are plain
  lists.  An array is well formed when it holds as many elements as its shape says.
\<close>

record 'a ndarray =
  shape :: "nat list"
  elems :: "'a list"

definition size_nd :: "'a ndarray \<Rightarrow> nat" where
  "size_nd a = prod_list (shape a)"

definition valid_nd :: "'a ndarray \<Rightarrow> bool" where
  "valid_nd a = (length (elems a) = size_nd a)"

text \<open>Offset of a multi-index in row-major order (Horner scheme over the axes).\<close>

fun offset_C :: "nat list \<Rightarrow> nat list \<Rightarrow> nat" where
  "offset_C [] [] = 0"
| "offset_C (d # ds) (i # is) = i * prod_list ds + offset_C ds is"
| "offset_C _ _ = 0"

text \<open>\<open>a[i, j, ...]\<close> for a full multi-index within the shape.\<close>

definition item :: "'a ndarray \<Rightarrow> nat list \<Rightarrow> 'a" where
  "item a idx = elems a ! offset_C (shape a) idx"

text \<open>\<open>a.reshape(-1, order='C')\<close>: the elements in row-major order.\<close>

definition ravel :: "'a ndarray \<Rightarrow> 'a list" where
  "ravel a = elems a"

text \<open>\<open>v.reshape(dims, order='C')\<close> of a vector: raises unless the sizes agree.\<close>

definition reshape :: "'a list \<Rightarrow> nat list \<Rightarrow> error + 'a ndarray" where
  "reshape v dims =
     (if length v = prod_list dims then Inr \<lparr>shape = dims, elems = v\<rparr> else Inl ValueError)"

text \<open>\<open>v[lo:hi]\<close> on a vector with \<open>0 \<le> lo\<close>: slicing never raises, it clips.\<close>

definition slice :: "'a list \<Rightarrow> nat \<Rightarrow> nat \<Rightarrow> 'a list" where
  "slice v lo hi = take (hi - lo) (drop lo v)"

text \<open>\<open>a[0:k]\<close>: the first \<open>k\<close> entries along the first axis (clipped).\<close>

definition rows_upto :: "nat \<Rightarrow> 'a ndarray \<Rightarrow> error + 'a ndarray" where
  "rows_upto k a =
     (case shape a of
        [] \<Rightarrow> Inl IndexError
      | d # ds \<Rightarrow> Inr \<lparr>shape = min k d # ds, elems = take (min k d * prod_list ds) (elems a)\<rparr>)"

text \<open>\<open>np.zeros(dims)\<close>.\<close>

definition zeros :: "nat list \<Rightarrow> ('a::zero) ndarray" where
  "zeros dims = \<lparr>shape = dims, elems = replicate (prod_list dims) 0\<rparr>"

text \<open>\<open>np.concatenate(seq)\<close> of one-dimensional arrays: an empty sequence is an error.\<close>

definition np_concatenate :: "'a list list \<Rightarrow> error + 'a list" where
  "np_concatenate vs = (if vs = [] then Inl ValueError else Inr (concat vs))"

text \<open>
  \<open>np.concatenate((a, b))\<close> along the first axis: both arrays need at least one axis and
  the same trailing axes.
\<close>

definition concatenate_rows :: "'a ndarray \<Rightarrow> 'a ndarray \<Rightarrow> error + 'a ndarray" where
  "concatenate_rows a b =
     (case (shape a, shape b) of
        (d # ds, d' # ds') \<Rightarrow>
          (if ds = ds' then Inr \<lparr>shape = (d + d') # ds, elems = elems a @ elems b\<rparr>
           else Inl ValueError)
      | _ \<Rightarrow> Inl ValueError)"

text \<open>
  An elementwise binary operation on two vectors, with numpy's broadcasting: equal
  lengths, or one operand of length one; anything else raises.
\<close>

definition broadcast :: "('a \<Rightarrow> 'a \<Rightarrow> 'a) \<Rightarrow> 'a list \<Rightarrow> 'a list \<Rightarrow> error + 'a list" where
  "broadcast f xs ys =
     (if length xs = length ys then Inr (map2 f xs ys)
      else if length xs = 1 then Inr (map (f (hd xs)) ys)
      else if length ys = 1 then Inr (map (\<lambda>x. f x (hd ys)) xs)
      else Inl ValueError)"

definition np_sub :: "('a::minus) list \<Rightarrow> 'a list \<Rightarrow> error + 'a list" where
  "np_sub = broadcast (-)"

definition np_add :: "('a::plus) list \<Rightarrow> 'a list \<Rightarrow> error + 'a list" where
  "np_add = broadcast (+)"

text \<open>\<open>c * v\<close> for a scalar \<open>c\<close>.\<close>

definition scale :: "('a::times) \<Rightarrow> 'a list \<Rightarrow> 'a list" where
  "scale c v = map (\<lambda>x. c * x) v"

section \<open>Aerodynamic snapshots\<close>

text \<open>
  \<open>AeroTimeStepInfo\<close>: the number of surfaces and, per field, a Python list with one array
  per surface.
\<close>

record 'a AeroTimeStepInfo =
  n_surf :: int
  zeta :: "'a ndarray list"
  zeta_dot :: "'a ndarray list"
  u_ext :: "'a ndarray list"
  gamma :: "'a ndarray list"
  gamma_dot :: "'a ndarray list"
  gamma_star :: "'a ndarray list"
  forces :: "'a ndarray list"
  rho :: 'a

text \<open>\<open>[field[ss].reshape(-1, order='C') for ss in range(n)]\<close>.\<close>

definition flat_surfaces :: "'a ndarray list \<Rightarrow> int \<Rightarrow> error + 'a list list" where
  "flat_surfaces field n = mapM (\<lambda>ss. ebind (getitem field ss) (\<lambda>a. Inr (ravel a))) (range_py n)"

section \<open>Packing\<close>

definition pack_input_vector :: "'a AeroTimeStepInfo \<Rightarrow> error + 'a list" where
  "pack_input_vector aero_tstep =
     ebind (ebind (flat_surfaces (zeta aero_tstep) (n_surf aero_tstep)) np_concatenate) (\<lambda>zeta'.
     ebind (ebind (flat_surfaces (zeta_dot aero_tstep) (n_surf aero_tstep)) np_concatenate) (\<lambda>zeta_dot'.
     ebind (ebind (flat_surfaces (u_ext aero_tstep) (n_surf aero_tstep)) np_concatenate) (\<lambda>u_ext'.
     np_concatenate [zeta', zeta_dot', u_ext'])))"

definition pack_state_vector ::
  "('a::{times,minus}) AeroTimeStepInfo \<Rightarrow> 'a AeroTimeStepInfo option \<Rightarrow> 'a \<Rightarrow> int
     \<Rightarrow> error + 'a list" where
  "pack_state_vector aero_tstep aero_tstep_m1 dt integr_order =
     ebind (ebind (flat_surfaces (gamma aero_tstep) (n_surf aero_tstep)) np_concatenate) (\<lambda>gamma'.
     ebind (ebind (flat_surfaces (gamma_star aero_tstep) (n_surf aero_tstep)) np_concatenate) (\<lambda>gamma_star'.
     ebind (ebind (flat_surfaces (gamma_dot aero_tstep) (n_surf aero_tstep)) np_concatenate) (\<lambda>gamma_dot'.
     ebind (if integr_order = 1 then Inr []
            else (case aero_tstep_m1 of
                    Some m1 \<Rightarrow>
                      ebind (flat_surfaces (gamma m1) (n_surf aero_tstep)) np_concatenate
                  | None \<Rightarrow> np_sub gamma' (scale dt gamma_dot'))) (\<lambda>gamma_m1.
     np_concatenate [gamma', gamma_star', scale dt gamma_dot', gamma_m1]))))"

text \<open>
  The reference forces of \<open>initialise\<close>:
  \<open>np.concatenate([forces[ss][0:3].reshape(-1, order='C') for ss in range(n_surf)])\<close>.
\<close>

definition pack_forces :: "'a AeroTimeStepInfo \<Rightarrow> error + 'a list" where
  "pack_forces aero_tstep =
     ebind (mapM (\<lambda>ss. ebind (getitem (forces aero_tstep) ss) (\<lambda>f.
                        ebind (rows_upto 3 f) (\<lambda>f3. Inr (ravel f3))))
                 (range_py (n_surf aero_tstep)))
       np_concatenate"

section \<open>The solver, its data and its collaborators\<close>

record 'a StructTimeStepInfo =
  for_pos :: "'a list"

text \<open>
  \<open>self.settings\<close> after \<open>settings.to_custom_types\<close>.  The two velocity-generator keys have
  no default in \<open>__init__\<close>, so they may be absent.
\<close>

record 'a Settings =
  s_dt :: 'a
  s_integr_order :: int
  s_density :: 'a
  s_ScalingDict :: "(string \<times> 'a) list"
  s_remove_predictor :: bool
  s_use_sparse :: bool
  s_physical_model :: bool
  s_velocity_field_generator :: "string option"
  s_velocity_field_input :: "(string \<times> 'a) list option"

text \<open>A value bound to a Python name: a vector, a number, or some other object.\<close>

datatype 'a pyval = Vector "'a list" | Number 'a | Object

text \<open>
  The dictionary \<open>data.aero.linear\<close>: one optional entry per key the solver uses
  (\<open>None\<close>: the key is absent).
\<close>

record ('a, 'sys, 'ss) Linear =
  System :: "'sys option"
  SS :: "'ss option"
  x_0 :: "'a list option"
  u_0 :: "'a list option"
  y_0 :: "'a list option"
  gamma_0 :: "'a pyval option"
  gamma_star_0 :: "'a pyval option"
  gamma_dot_0 :: "'a pyval option"

definition empty_linear :: "('a, 'sys, 'ss) Linear" where
  "empty_linear =
     \<lparr>System = None, SS = None, x_0 = None, u_0 = None, y_0 = None,
      gamma_0 = None, gamma_star_0 = None, gamma_dot_0 = None\<rparr>"

text \<open>
  The \<open>data\<close> object (\<open>PreSharpy\<close>), with the attribute paths the solver follows written as
  field names.  Snapshots are objects shared by reference: \<open>aero_timestep_info\<close> holds their
  addresses in the heap of the world below.  \<open>aero_linear = None\<close> means that \<open>data.aero\<close>
  has no attribute \<open>linear\<close>.
\<close>

record ('a, 'sys, 'ss) PreSharpy =
  settings :: "string \<rightharpoonup> 'a Settings"
  aero_timestep_info :: "nat list"
  aero_linear :: "('a, 'sys, 'ss) Linear option"
  aero_dimensions :: "nat list list"
  aero_dimensions_star :: "nat list list"
  structure_timestep_info :: "'a StructTimeStepInfo list"
  ts :: int

text \<open>
  The state a call works on: the heap of snapshot objects and the attributes of the solver
  instance (\<open>self.data\<close>, \<open>self.settings\<close>, \<open>self.velocity_generator\<close>, all \<open>None\<close> after
  \<open>__init__\<close>).
\<close>

record ('a, 'sys, 'ss, 'gen) World =
  heap :: "nat \<Rightarrow> 'a AeroTimeStepInfo"
  self_data :: "('a, 'sys, 'ss) PreSharpy option"
  self_settings :: "'a Settings option"
  self_velocity_generator :: "'gen option"

text \<open>The dictionary handed to the velocity generator.\<close>

record 'a GeneratorParams =
  p_zeta :: "'a ndarray list"
  p_override :: bool
  p_t :: 'a
  p_ts :: int
  p_dt :: 'a
  p_for_pos :: "'a list"

text \<open>
  The collaborators that live outside \<open>steplinearuvlm.py\<close>, taken as parameters:
  \<open>settings.to_custom_types\<close>; the constructor \<open>linuvlm.Dynamic\<close>, its methods
  \<open>assemble_ss\<close>, \<open>solve_step\<close> and \<open>unpack_state\<close> and its attribute \<open>SS\<close>;
  \<open>gen_interface.generator_from_string\<close> followed by the construction of the generator, and
  the generator's methods \<open>initialise\<close> and \<open>generate\<close>.  Those that work in place return
  the new value here: \<open>to_custom_types\<close> the converted settings (kept in \<open>self.settings\<close>),
  \<open>assemble_ss\<close> the assembled system, the generator's \<open>initialise\<close> the initialised
  generator, and \<open>generate\<close>, which fills the list of external-velocity arrays it is given
  and returns nothing, the new contents of that list.  \<open>solve_step\<close> and \<open>unpack_state\<close>
  only return values and leave the system as it is (section 4.2 of the specification).
\<close>

record ('a, 'sys, 'ss, 'gen) Externals =
  to_custom_types :: "'a Settings \<Rightarrow> error + 'a Settings"
  Dynamic :: "'a AeroTimeStepInfo \<Rightarrow> 'a \<Rightarrow> int \<Rightarrow> (string \<times> 'a) list \<Rightarrow> bool \<Rightarrow> bool \<Rightarrow> error + 'sys"
  assemble_ss :: "'sys \<Rightarrow> error + 'sys"
  get_SS :: "'sys \<Rightarrow> error + 'ss"
  generator_from_string :: "string \<Rightarrow> error + 'gen"
  generator_initialise :: "'gen \<Rightarrow> (string \<times> 'a) list \<Rightarrow> error + 'gen"
  generate :: "'gen \<Rightarrow> 'a GeneratorParams \<Rightarrow> 'a ndarray list \<Rightarrow> error + 'a ndarray list"
  solve_step :: "'sys \<Rightarrow> 'a list \<Rightarrow> 'a list option \<Rightarrow> 'a list \<Rightarrow> bool \<Rightarrow> error + 'a list \<times> 'a list"
  unpack_state :: "'sys \<Rightarrow> 'a list \<Rightarrow> 'a list \<Rightarrow> error + 'a list \<times> 'a list \<times> 'a list"

definition solver_id :: string where
  "solver_id = ''StepLinearUVLM''"

subsection \<open>Reading attributes and keys\<close>

text \<open>\<open>self.data.\<dots>\<close>: an attribute of \<open>None\<close> does not exist.\<close>

definition the_data :: "('a, 'sys, 'ss, 'gen) World \<Rightarrow> error + ('a, 'sys, 'ss) PreSharpy" where
  "the_data w = (case self_data w of None \<Rightarrow> Inl AttributeError | Some d \<Rightarrow> Inr d)"

text \<open>\<open>self.settings[\<dots>]\<close>: \<open>None\<close> is not subscriptable.\<close>

definition the_settings :: "('a, 'sys, 'ss, 'gen) World \<Rightarrow> error + 'a Settings" where
  "the_settings w = (case self_settings w of None \<Rightarrow> Inl TypeError | Some st \<Rightarrow> Inr st)"

text \<open>\<open>self.velocity_generator.generate\<close>.\<close>

definition the_generator :: "('a, 'sys, 'ss, 'gen) World \<Rightarrow> error + 'gen" where
  "the_generator w = (case self_velocity_generator w of None \<Rightarrow> Inl AttributeError | Some g \<Rightarrow> Inr g)"

text \<open>\<open>self.data.aero.linear\<close>.\<close>

definition the_linear :: "('a, 'sys, 'ss, 'gen) World \<Rightarrow> error + ('a, 'sys, 'ss) Linear" where
  "the_linear w =
     ebind (the_data w) (\<lambda>d. case aero_linear d of None \<Rightarrow> Inl AttributeError | Some l \<Rightarrow> Inr l)"

text \<open>\<open>d[key]\<close> for a dictionary entry that may be absent.\<close>

definition key :: "'b option \<Rightarrow> error + 'b" where
  "key entry = (case entry of None \<Rightarrow> Inl KeyError | Some v \<Rightarrow> Inr v)"

text \<open>Evaluating a name in a scope (the local names, then the module's).\<close>

definition load_name :: "(string \<times> 'b) list \<Rightarrow> string \<Rightarrow> error + 'b" where
  "load_name scope name = (case map_of scope name of None \<Rightarrow> Inl NameError | Some v \<Rightarrow> Inr v)"

subsection \<open>Statements: state passing with exceptions\<close>

text \<open>
  A statement maps the world to an outcome and the world it leaves behind; what was written
  before an exception stays written.
\<close>

definition sbind ::
  "('s \<Rightarrow> (error + 'b) \<times> 's) \<Rightarrow> ('b \<Rightarrow> 's \<Rightarrow> (error + 'c) \<times> 's) \<Rightarrow> 's \<Rightarrow> (error + 'c) \<times> 's" where
  "sbind m f s = (case m s of (Inl e, s') \<Rightarrow> (Inl e, s') | (Inr x, s') \<Rightarrow> f x s')"

text \<open>An expression that reads the world and may raise.\<close>

definition expr :: "('s \<Rightarrow> error + 'b) \<Rightarrow> 's \<Rightarrow> (error + 'b) \<times> 's" where
  "expr f s = (f s, s)"

text \<open>An assignment.\<close>

definition assign :: "('s \<Rightarrow> 's) \<Rightarrow> 's \<Rightarrow> (error + unit) \<times> 's" where
  "assign f s = (Inr (), f s)"

text \<open>Updating the dictionary \<open>self.data.aero.linear\<close> and a snapshot object in place.\<close>

definition update_linear ::
  "(('a, 'sys, 'ss) Linear \<Rightarrow> ('a, 'sys, 'ss) Linear)
     \<Rightarrow> ('a, 'sys, 'ss, 'gen) World \<Rightarrow> ('a, 'sys, 'ss, 'gen) World" where
  "update_linear f w =
     w\<lparr>self_data := map_option (\<lambda>d. d\<lparr>aero_linear := map_option f (aero_linear d)\<rparr>) (self_data w)\<rparr>"

definition update_tstep ::
  "nat \<Rightarrow> ('a AeroTimeStepInfo \<Rightarrow> 'a AeroTimeStepInfo)
     \<Rightarrow> ('a, 'sys, 'ss, 'gen) World \<Rightarrow> ('a, 'sys, 'ss, 'gen) World" where
  "update_tstep a f w = w\<lparr>heap := (heap w)(a := f (heap w a))\<rparr>"

text \<open>\<open>self.data.aero.linear[k] = v\<close>, written as the update \<open>f\<close> of the dictionary.\<close>

definition set_linear ::
  "(('a, 'sys, 'ss) Linear \<Rightarrow> ('a, 'sys, 'ss) Linear)
     \<Rightarrow> ('a, 'sys, 'ss, 'gen) World \<Rightarrow> (error + unit) \<times> ('a, 'sys, 'ss, 'gen) World" where
  "set_linear f = sbind (expr the_linear) (\<lambda>_. assign (update_linear f))"

text \<open>\<open>xs[i] = v\<close> on a Python list, for an index that is not negative.\<close>

definition setitem :: "'b list \<Rightarrow> nat \<Rightarrow> 'b \<Rightarrow> error + 'b list" where
  "setitem xs i v = (if i < length xs then Inr (xs[i := v]) else Inl IndexError)"

section \<open>Unpacking\<close>

text \<open>The local variables the loop of \<open>unpack_ss_vectors\<close> carries from surface to surface.\<close>

record 'a UnpackLocals =
  l_forces :: "'a ndarray list"
  l_gamma :: "'a ndarray list"
  l_gamma_star :: "'a ndarray list"
  l_gamma_dot :: "'a ndarray list"
  worked_points :: nat
  worked_panels :: nat
  worked_wake_panels :: nat

text \<open>The body of the loop, for surface \<open>i_surf\<close>.\<close>

definition unpack_surface ::
  "('a::zero, 'sys, 'ss) PreSharpy \<Rightarrow> 'a list \<Rightarrow> 'a list \<Rightarrow> 'a list \<Rightarrow> 'a list
     \<Rightarrow> 'a AeroTimeStepInfo \<Rightarrow> nat \<Rightarrow> 'a UnpackLocals \<Rightarrow> error + 'a UnpackLocals" where
  "unpack_surface d f_aero gamma_vec gamma_star_vec gamma_dot_vec aero_tstep i_surf l =
     ebind (getitem (zeta aero_tstep) i_surf) (\<lambda>z.
     ebind (getitem (aero_dimensions d) i_surf) (\<lambda>dimensions_gamma.
     ebind (getitem (aero_dimensions_star d) i_surf) (\<lambda>dimensions_wake.
     ebind (getitem (gamma aero_tstep) i_surf) (\<lambda>g.
     ebind (getitem (gamma_star aero_tstep) i_surf) (\<lambda>gs.
     let dimensions = shape z;
         points_in_surface = size_nd z;
         panels_in_surface = size_nd g;
         panels_in_wake = size_nd gs
     in
     ebind (reshape (slice f_aero (worked_points l) (worked_points l + points_in_surface))
                    dimensions) (\<lambda>f.
     let forces1 = l_forces l @ [f] in
     ebind (getitem forces1 i_surf) (\<lambda>fi.
     ebind (concatenate_rows fi (zeros dimensions)) (\<lambda>f6.
     ebind (setitem forces1 i_surf f6) (\<lambda>forces2.
     ebind (reshape (slice gamma_vec (worked_panels l) (worked_panels l + panels_in_surface))
                    dimensions_gamma) (\<lambda>gm.
     ebind (reshape (slice gamma_dot_vec (worked_panels l) (worked_panels l + panels_in_surface))
                    dimensions_gamma) (\<lambda>gdm.
     ebind (reshape (slice gamma_star_vec (worked_wake_panels l)
                       (worked_wake_panels l + panels_in_wake))
                    dimensions_wake) (\<lambda>gsm.
     Inr \<lparr>l_forces = forces2,
          l_gamma = l_gamma l @ [gm],
          l_gamma_star = l_gamma_star l @ [gsm],
          l_gamma_dot = l_gamma_dot l @ [gdm],
          worked_points = worked_points l + points_in_surface,
          worked_panels = worked_panels l + panels_in_surface,
          worked_wake_panels = worked_wake_panels l + panels_in_wake\<rparr>))))))))))))"

text \<open>\<open>for i_surf in range(aero_tstep.n_surf): \<dots>\<close>\<close>

fun unpack_loop ::
  "('a::zero, 'sys, 'ss) PreSharpy \<Rightarrow> 'a list \<Rightarrow> 'a list \<Rightarrow> 'a list \<Rightarrow> 'a list
     \<Rightarrow> 'a AeroTimeStepInfo \<Rightarrow> nat list \<Rightarrow> 'a UnpackLocals \<Rightarrow> error + 'a UnpackLocals" where
  "unpack_loop d f_aero gamma_vec gamma_star_vec gamma_dot_vec aero_tstep [] l = Inr l"
| "unpack_loop d f_aero gamma_vec gamma_star_vec gamma_dot_vec aero_tstep (i_surf # rest) l =
     ebind (unpack_surface d f_aero gamma_vec gamma_star_vec gamma_dot_vec aero_tstep i_surf l)
       (unpack_loop d f_aero gamma_vec gamma_star_vec gamma_dot_vec aero_tstep rest)"

definition unpack_ss_vectors ::
  "('a::zero, 'sys, 'ss, 'gen) Externals \<Rightarrow> ('a, 'sys, 'ss, 'gen) World
     \<Rightarrow> 'a list \<Rightarrow> 'a list \<Rightarrow> 'a list \<Rightarrow> 'a AeroTimeStepInfo
     \<Rightarrow> error + 'a ndarray list \<times> 'a ndarray list \<times> 'a ndarray list \<times> 'a ndarray list" where
  "unpack_ss_vectors ext w y_n x_n u_n aero_tstep =
     (let f_aero = y_n in
      ebind (the_linear w) (\<lambda>lin.
      ebind (key (System lin)) (\<lambda>sys.
      ebind (unpack_state ext sys x_n u_n) (\<lambda>(gamma_vec, gamma_star_vec, gamma_dot_vec).
      ebind (the_data w) (\<lambda>d.
      ebind (unpack_loop d f_aero gamma_vec gamma_star_vec gamma_dot_vec aero_tstep
               (range_py (n_surf aero_tstep))
               \<lparr>l_forces = [], l_gamma = [], l_gamma_star = [], l_gamma_dot = [],
                worked_points = 0, worked_panels = 0, worked_wake_panels = 0\<rparr>) (\<lambda>l.
      Inr (l_forces l, l_gamma l, l_gamma_dot l, l_gamma_star l)))))))"

section \<open>Initialisation\<close>

text \<open>
  The names bound when line 175 of \<open>initialise\<close> runs: the parameters and the local
  variables assigned in the function, then the names the module imports or defines.
\<close>

definition initialise_scope :: "'a list \<Rightarrow> 'a \<Rightarrow> 'a list \<Rightarrow> 'a list \<Rightarrow> (string \<times> 'a pyval) list" where
  "initialise_scope u0 dt x0 f0 =
     [(''self'', Object), (''data'', Object), (''custom_settings'', Object),
      (''aero_tstep'', Object), (''lin_uvlm_system'', Object),
      (''u_0'', Vector u0), (''dt'', Number dt), (''x_0'', Vector x0), (''f_0'', Vector f0),
      (''os'', Object), (''sys'', Object), (''BaseSolver'', Object), (''solver'', Object),
      (''np'', Object), (''settings'', Object), (''gen_interface'', Object),
      (''linuvlm'', Object), (''StepLinearUVLM'', Object)]"

text \<open>The handler of \<open>except AttributeError\<close> (lines 142 to 177): the first linearisation.\<close>

definition linearise ::
  "('a::{times,minus}, 'sys, 'ss, 'gen) Externals
     \<Rightarrow> ('a, 'sys, 'ss, 'gen) World \<Rightarrow> (error + unit) \<times> ('a, 'sys, 'ss, 'gen) World" where
  "linearise ext =
     sbind (expr the_data) (\<lambda>d.
     sbind (assign (\<lambda>w. w\<lparr>self_data := Some (d\<lparr>aero_linear := Some empty_linear\<rparr>)\<rparr>)) (\<lambda>_.
     sbind (expr (\<lambda>w. ebind (the_data w) (\<lambda>d. getitem_neg (aero_timestep_info d) 1))) (\<lambda>aero_tstep.
     sbind (expr (\<lambda>w. ebind (the_settings w) (\<lambda>st. Inr (s_density st)))) (\<lambda>density.
     sbind (expr (\<lambda>w. ebind (the_data w) (\<lambda>d. getitem_neg (aero_timestep_info d) 1))) (\<lambda>last.
     sbind (assign (update_tstep last (\<lambda>s. s\<lparr>rho := density\<rparr>))) (\<lambda>_.
     sbind (expr (\<lambda>w. ebind (the_settings w) (\<lambda>st.
              Dynamic ext (heap w aero_tstep) (s_dt st) (s_integr_order st) (s_ScalingDict st)
                (s_remove_predictor st) (s_use_sparse st)))) (\<lambda>lin_uvlm_system.
     sbind (expr (\<lambda>w. pack_input_vector (heap w aero_tstep))) (\<lambda>u0.
     sbind (expr (\<lambda>w. ebind (the_settings w) (\<lambda>st. Inr (s_dt st)))) (\<lambda>dt.
     sbind (expr (\<lambda>w. ebind (the_settings w) (\<lambda>st.
              pack_state_vector (heap w aero_tstep) None dt (s_integr_order st)))) (\<lambda>x0.
     sbind (expr (\<lambda>w. pack_forces (heap w aero_tstep))) (\<lambda>f0.
     sbind (expr (\<lambda>w. assemble_ss ext lin_uvlm_system)) (\<lambda>assembled.
     sbind (set_linear (\<lambda>lin. lin\<lparr>System := Some assembled\<rparr>)) (\<lambda>_.
     sbind (expr (\<lambda>w. get_SS ext assembled)) (\<lambda>ss.
     sbind (set_linear (\<lambda>lin. lin\<lparr>SS := Some ss\<rparr>)) (\<lambda>_.
     sbind (set_linear (\<lambda>lin. lin\<lparr>x_0 := Some x0\<rparr>)) (\<lambda>_.
     sbind (set_linear (\<lambda>lin. lin\<lparr>u_0 := Some u0\<rparr>)) (\<lambda>_.
     sbind (set_linear (\<lambda>lin. lin\<lparr>y_0 := Some f0\<rparr>)) (\<lambda>_.
     sbind (expr (\<lambda>w. load_name (initialise_scope u0 dt x0 f0) ''gamma'')) (\<lambda>v.
     sbind (set_linear (\<lambda>lin. lin\<lparr>gamma_0 := Some v\<rparr>)) (\<lambda>_.
     sbind (expr (\<lambda>w. load_name (initialise_scope u0 dt x0 f0) ''gamma_star'')) (\<lambda>v.
     sbind (set_linear (\<lambda>lin. lin\<lparr>gamma_star_0 := Some v\<rparr>)) (\<lambda>_.
     sbind (expr (\<lambda>w. load_name (initialise_scope u0 dt x0 f0) ''gamma_dot'')) (\<lambda>v.
     set_linear (\<lambda>lin. lin\<lparr>gamma_dot_0 := Some v\<rparr>))))))))))))))))))))))))"

definition initialise ::
  "('a::{times,minus}, 'sys, 'ss, 'gen) Externals \<Rightarrow> ('a, 'sys, 'ss) PreSharpy
     \<Rightarrow> 'a Settings option
     \<Rightarrow> ('a, 'sys, 'ss, 'gen) World \<Rightarrow> (error + unit) \<times> ('a, 'sys, 'ss, 'gen) World" where
  "initialise ext data' custom_settings =
     sbind (assign (\<lambda>w. w\<lparr>self_data := Some data'\<rparr>)) (\<lambda>_.
     sbind (expr (\<lambda>w. case custom_settings of
                         None \<Rightarrow> key (settings data' solver_id)
                       | Some c \<Rightarrow> Inr c)) (\<lambda>raw.
     sbind (assign (\<lambda>w. w\<lparr>self_settings := Some raw\<rparr>)) (\<lambda>_.
     sbind (expr (\<lambda>w. to_custom_types ext raw)) (\<lambda>st.
     sbind (assign (\<lambda>w. w\<lparr>self_settings := Some st\<rparr>)) (\<lambda>_.
     sbind (\<lambda>w. case the_linear w of
                  Inr _ \<Rightarrow> (Inr (), w)
                | Inl e \<Rightarrow> if e = AttributeError then linearise ext w else (Inl e, w)) (\<lambda>_.
     sbind (expr (\<lambda>w. ebind (the_settings w) (\<lambda>st.
              ebind (key (s_velocity_field_generator st)) (generator_from_string ext)))) (\<lambda>gen.
     sbind (assign (\<lambda>w. w\<lparr>self_velocity_generator := Some gen\<rparr>)) (\<lambda>_.
     sbind (expr (\<lambda>w. ebind (the_generator w) (\<lambda>g. ebind (the_settings w) (\<lambda>st.
              ebind (key (s_velocity_field_input st)) (generator_initialise ext g))))) (\<lambda>gen'.
     assign (\<lambda>w. w\<lparr>self_velocity_generator := Some gen'\<rparr>))))))))))"

section \<open>One step\<close>

text \<open>What lines 251 to 292 of \<open>run\<close> prepare for the stepper.\<close>

record 'a StepInputs =
  i_aero_tstep :: nat
  i_u_n :: "'a list"
  i_du_n :: "'a list"
  i_du_m1 :: "'a list option"
  i_dx_m1 :: "'a list"

text \<open>
  Lines 251 and 252 of \<open>run\<close>: the current snapshot is the one passed in, or the last
  retained one when none is passed.
\<close>

definition current_tstep :: "nat option \<Rightarrow> ('a, 'sys, 'ss, 'gen) World \<Rightarrow> error + nat" where
  "current_tstep aero_tstep w =
     (case aero_tstep of
        None \<Rightarrow> ebind (the_data w) (\<lambda>d. getitem_neg (aero_timestep_info d) 1)
      | Some a \<Rightarrow> Inr a)"

text \<open>Lines 251 to 292 of \<open>run\<close>: defaults, the velocity field, the packed inputs and state.\<close>

definition run_inputs ::
  "('a::ring_1, 'sys, 'ss, 'gen) Externals \<Rightarrow> nat option \<Rightarrow> 'a StructTimeStepInfo option
     \<Rightarrow> 'a option \<Rightarrow> 'a option
     \<Rightarrow> ('a, 'sys, 'ss, 'gen) World \<Rightarrow> (error + 'a StepInputs) \<times> ('a, 'sys, 'ss, 'gen) World" where
  "run_inputs ext aero_tstep structure_tstep dt t =
     sbind (expr (current_tstep aero_tstep)) (\<lambda>aero_tstep'.
     sbind (expr (\<lambda>w. case structure_tstep of
                         None \<Rightarrow> ebind (the_data w) (\<lambda>d. getitem_neg (structure_timestep_info d) 1)
                       | Some s \<Rightarrow> Inr s)) (\<lambda>structure_tstep'.
     sbind (expr (\<lambda>w. case dt of
                         None \<Rightarrow> ebind (the_settings w) (\<lambda>st. Inr (s_dt st))
                       | Some v \<Rightarrow> Inr v)) (\<lambda>dt'.
     sbind (expr (\<lambda>w. case t of
                         None \<Rightarrow> ebind (the_data w) (\<lambda>d. Inr (of_int (ts d) * dt'))
                       | Some v \<Rightarrow> Inr v)) (\<lambda>t'.
     sbind (expr (\<lambda>w. ebind (the_settings w) (\<lambda>st. Inr (s_integr_order st)))) (\<lambda>integr_order.
     sbind (expr (\<lambda>w. ebind (the_generator w) (\<lambda>gen. ebind (the_data w) (\<lambda>d.
              generate ext gen
                \<lparr>p_zeta = zeta (heap w aero_tstep'), p_override = True, p_t = t', p_ts = ts d,
                 p_dt = dt', p_for_pos = for_pos structure_tstep'\<rparr>
                (u_ext (heap w aero_tstep')))))) (\<lambda>u_ext'.
     sbind (assign (update_tstep aero_tstep' (\<lambda>s. s\<lparr>u_ext := u_ext'\<rparr>))) (\<lambda>_.
     sbind (expr (\<lambda>w. pack_input_vector (heap w aero_tstep'))) (\<lambda>u_n.
     sbind (expr (\<lambda>w. ebind (the_linear w) (\<lambda>lin. ebind (key (u_0 lin)) (np_sub u_n)))) (\<lambda>du_n.
     sbind (expr (\<lambda>w. ebind (the_settings w) (\<lambda>st.
              if s_remove_predictor st then
                ebind (the_data w) (\<lambda>d.
                ebind (getitem_neg (aero_timestep_info d) 1) (\<lambda>last.
                ebind (pack_input_vector (heap w last)) (\<lambda>u_m1.
                ebind (the_linear w) (\<lambda>lin.
                ebind (key (u_0 lin)) (\<lambda>u0.
                ebind (np_sub u_m1 u0) (\<lambda>du_m1. Inr (Some du_m1)))))))
              else Inr None))) (\<lambda>du_m1.
     sbind (expr (\<lambda>w. ebind (the_data w) (\<lambda>d.
              if length (aero_timestep_info d) < 2 then
                pack_state_vector (heap w aero_tstep') None dt' integr_order
              else
                ebind (getitem_neg (aero_timestep_info d) 2) (\<lambda>prev.
                pack_state_vector (heap w aero_tstep') (Some (heap w prev)) dt' integr_order)))) (\<lambda>x_m1.
     sbind (expr (\<lambda>w. ebind (the_linear w) (\<lambda>lin. ebind (key (x_0 lin)) (np_sub x_m1)))) (\<lambda>dx_m1.
     expr (\<lambda>w. Inr \<lparr>i_aero_tstep = aero_tstep', i_u_n = u_n, i_du_n = du_n, i_du_m1 = du_m1,
                     i_dx_m1 = dx_m1\<rparr>)))))))))))))"

text \<open>Line 295 of \<open>run\<close>: the call of the stepper.\<close>

definition run_solve ::
  "('a, 'sys, 'ss, 'gen) Externals \<Rightarrow> 'a StepInputs
     \<Rightarrow> ('a, 'sys, 'ss, 'gen) World \<Rightarrow> (error + 'a list \<times> 'a list) \<times> ('a, 'sys, 'ss, 'gen) World" where
  "run_solve ext inp =
     expr (\<lambda>w. ebind (the_linear w) (\<lambda>lin. ebind (key (System lin)) (\<lambda>sys.
             solve_step ext sys (i_dx_m1 inp) (i_du_m1 inp) (i_du_n inp) True)))"

text \<open>Lines 297 to 307 of \<open>run\<close>: back to absolute values, unpacking, writing the snapshot.\<close>

definition run_outputs ::
  "('a::{zero,plus}, 'sys, 'ss, 'gen) Externals \<Rightarrow> 'a StepInputs \<Rightarrow> 'a list \<Rightarrow> 'a list
     \<Rightarrow> ('a, 'sys, 'ss, 'gen) World
     \<Rightarrow> (error + ('a, 'sys, 'ss) PreSharpy) \<times> ('a, 'sys, 'ss, 'gen) World" where
  "run_outputs ext inp dx_n dy_n =
     sbind (expr (\<lambda>w. ebind (the_linear w) (\<lambda>lin. ebind (key (x_0 lin)) (\<lambda>x0. np_add x0 dx_n)))) (\<lambda>x_n.
     sbind (expr (\<lambda>w. ebind (the_linear w) (\<lambda>lin. ebind (key (y_0 lin)) (\<lambda>y0. np_add y0 dy_n)))) (\<lambda>y_n.
     sbind (expr (\<lambda>w. unpack_ss_vectors ext w y_n x_n (i_u_n inp) (heap w (i_aero_tstep inp))))
       (\<lambda>(forces', gamma', gamma_dot', gamma_star').
     sbind (assign (update_tstep (i_aero_tstep inp) (\<lambda>s. s\<lparr>forces := forces'\<rparr>))) (\<lambda>_.
     sbind (assign (update_tstep (i_aero_tstep inp) (\<lambda>s. s\<lparr>gamma := gamma'\<rparr>))) (\<lambda>_.
     sbind (assign (update_tstep (i_aero_tstep inp) (\<lambda>s. s\<lparr>gamma_dot := gamma_dot'\<rparr>))) (\<lambda>_.
     sbind (assign (update_tstep (i_aero_tstep inp) (\<lambda>s. s\<lparr>gamma_star := gamma_star'\<rparr>))) (\<lambda>_.
     expr the_data)))))))"

definition run ::
  "('a::ring_1, 'sys, 'ss, 'gen) Externals \<Rightarrow> nat option \<Rightarrow> 'a StructTimeStepInfo option
     \<Rightarrow> bool \<Rightarrow> 'a option \<Rightarrow> 'a option \<Rightarrow> bool
     \<Rightarrow> ('a, 'sys, 'ss, 'gen) World
     \<Rightarrow> (error + ('a, 'sys, 'ss) PreSharpy) \<times> ('a, 'sys, 'ss, 'gen) World" where
  "run ext aero_tstep structure_tstep convect_wake dt t unsteady_contribution =
     sbind (run_inputs ext aero_tstep structure_tstep dt t) (\<lambda>inp.
     sbind (run_solve ext inp) (\<lambda>(dx_n, dy_n).
     run_outputs ext inp dx_n dy_n))"

section \<open>Well-formed snapshots\<close>

text \<open>
  A per-surface field holds at least \<open>n\<close> arrays and each of the first \<open>n\<close> is well formed.
\<close>

definition surfaces_ok :: "nat \<Rightarrow> 'a ndarray list \<Rightarrow> bool" where
  "surfaces_ok n field = (n \<le> length field \<and> list_all valid_nd (take n field))"

text \<open>The first \<open>n\<close> surfaces of a field flattened one after the other, and their total size.\<close>

definition block :: "nat \<Rightarrow> 'a ndarray list \<Rightarrow> 'a list" where
  "block n field = concat (map ravel (take n field))"

definition total_size :: "nat \<Rightarrow> 'a ndarray list \<Rightarrow> nat" where
  "total_size n field = sum_list (map size_nd (take n field))"

section \<open>Example data\<close>

text \<open>
  One surface with a grid of two by two vertices, circulation rows \<open>[1, 2]\<close> and \<open>[3, 4]\<close>, all
  rates zero and a wake of one by two zeros.
\<close>

definition scenario_tstep :: "real AeroTimeStepInfo" where
  "scenario_tstep =
     \<lparr>n_surf = 1,
      zeta = [zeros [3, 2, 2] ], zeta_dot = [zeros [3, 2, 2] ], u_ext = [zeros [3, 2, 2] ],
      gamma = [\<lparr>shape = [2, 2], elems = [1, 2, 3, 4]\<rparr>],
      gamma_dot = [zeros [2, 2] ],
      gamma_star = [zeros [1, 2] ],
      forces = [zeros [6, 2, 2] ],
      rho = 0\<rparr>"

text \<open>Two surfaces of different shapes, every entry different.\<close>

definition wing_tstep :: "int AeroTimeStepInfo" where
  "wing_tstep =
     \<lparr>n_surf = 2,
      zeta = [\<lparr>shape = [3, 1, 2], elems = [1, 2, 3, 4, 5, 6]\<rparr>,
              \<lparr>shape = [3, 2, 1], elems = [7, 8, 9, 10, 11, 12]\<rparr>],
      zeta_dot = [\<lparr>shape = [3, 1, 2], elems = [21, 22, 23, 24, 25, 26]\<rparr>,
                  \<lparr>shape = [3, 2, 1], elems = [27, 28, 29, 30, 31, 32]\<rparr>],
      u_ext = [\<lparr>shape = [3, 1, 2], elems = [41, 42, 43, 44, 45, 46]\<rparr>,
               \<lparr>shape = [3, 2, 1], elems = [47, 48, 49, 50, 51, 52]\<rparr>],
      gamma = [\<lparr>shape = [1, 2], elems = [61, 62]\<rparr>, \<lparr>shape = [2, 1], elems = [63, 64]\<rparr>],
      gamma_dot = [\<lparr>shape = [1, 2], elems = [71, 72]\<rparr>, \<lparr>shape = [2, 1], elems = [73, 74]\<rparr>],
      gamma_star = [\<lparr>shape = [1, 2], elems = [81, 82]\<rparr>, \<lparr>shape = [1, 1], elems = [83]\<rparr>],
      forces = [\<lparr>shape = [6, 1, 2], elems = [101, 102, 103, 104, 105, 106, 9, 9, 9, 9, 9, 9]\<rparr>,
                \<lparr>shape = [6, 2, 1], elems = [107, 108, 109, 110, 111, 112, 9, 9, 9, 9, 9, 9]\<rparr>],
      rho = 1\<rparr>"

section \<open>What unpacking should produce\<close>

text \<open>
  A vector \<open>vec\<close> can be cut into the first \<open>n\<close> surfaces of \<open>field\<close>, reshaped to \<open>dims\<close>:
  there are enough surfaces, the shapes have the sizes of the arrays, and the vector is
  long enough.
\<close>

definition fits :: "nat list list \<Rightarrow> 'a ndarray list \<Rightarrow> 'b list \<Rightarrow> nat \<Rightarrow> bool" where
  "fits dims field vec n =
     (n \<le> length dims \<and> n \<le> length field
      \<and> list_all2 (\<lambda>d a. prod_list d = size_nd a) (take n dims) (take n field)
      \<and> total_size n field \<le> length vec)"

text \<open>
  The shapes \<open>dims\<close> of the first \<open>n\<close> surfaces have the sizes of the arrays of \<open>field\<close>.
\<close>

definition agree :: "nat list list \<Rightarrow> 'a ndarray list \<Rightarrow> nat \<Rightarrow> bool" where
  "agree dims field n =
     list_all2 (\<lambda>d a. prod_list d = size_nd a) (take n dims) (take n field)"

text \<open>
  The position grid \<open>z\<close> of a surface is \<open>3 \<times> m \<times> n\<close> and its force array \<open>f\<close> is a well-formed
  \<open>6 \<times> m \<times> n\<close> array.
\<close>

definition force_shaped :: "'a ndarray \<Rightarrow> 'b ndarray \<Rightarrow> bool" where
  "force_shaped z f =
     (length (shape z) = 3 \<and> hd (shape z) = 3 \<and> shape f = 6 # tl (shape z) \<and> valid_nd f)"

text \<open>
  The array surface \<open>j\<close> gets from a vector: its own stretch of the vector, after the
  stretches of the surfaces before it.  For the forces the stretch is followed by as many
  zeros and the first axis doubles.
\<close>

definition unpacked_forces :: "('a::zero) list \<Rightarrow> 'a ndarray list \<Rightarrow> nat \<Rightarrow> 'a ndarray" where
  "unpacked_forces y zs j =
     \<lparr>shape = (hd (shape (zs ! j)) + hd (shape (zs ! j))) # tl (shape (zs ! j)),
      elems = slice y (total_size j zs) (total_size j zs + size_nd (zs ! j))
              @ replicate (size_nd (zs ! j)) 0\<rparr>"

definition unpacked :: "nat list list \<Rightarrow> 'a ndarray list \<Rightarrow> 'b list \<Rightarrow> nat \<Rightarrow> 'b ndarray" where
  "unpacked dims field vec j =
     \<lparr>shape = dims ! j,
      elems = slice vec (total_size j field) (total_size j field + size_nd (field ! j))\<rparr>"

section \<open>The stepper of the linear system\<close>

text \<open>
  Modelled from the spec: \<open>sharpy.linear.src.linuvlm\<close> (the class \<open>Dynamic\<close> with its method
  \<open>solve_step\<close>) is not among the sources.  Section 4.2 of the specification describes the
  operator as four matrices fixed at linearisation time and a form chosen then, and the
  step as follows.  Standard form: \<open>x[n] = A x[n-1] + B u[n]\<close>, \<open>y[n] = C x[n] + D u[n]\<close>; the
  previous-step input is not used.  Predictor-removed form: \<open>h[n] = A h[n-1] + B u[n-1]\<close>,
  \<open>y[n] = C h[n] + D u[n]\<close>; without a previous-step input the step fails with the
  missing-history error.  A dimension mismatch is fatal.  The specification gives the
  transform flag no effect of its own.
\<close>

record 'a StateSpace =
  ss_A :: "'a list list"
  ss_B :: "'a list list"
  ss_C :: "'a list list"
  ss_D :: "'a list list"

record 'a LinearSystem =
  sys_SS :: "'a StateSpace"
  sys_remove_predictor :: bool

text \<open>Modelled from the spec: a matrix applied to a vector, a dimension mismatch being fatal.\<close>

definition matvec :: "('a::semiring_0) list list \<Rightarrow> 'a list \<Rightarrow> error + 'a list" where
  "matvec M v =
     (if list_all (\<lambda>row. length row = length v) M
      then Inr (map (\<lambda>row. sum_list (map2 (*) row v)) M)
      else Inl ValueError)"

text \<open>Modelled from the spec: the sum of two vectors, a dimension mismatch being fatal.\<close>

definition vec_add :: "('a::plus) list \<Rightarrow> 'a list \<Rightarrow> error + 'a list" where
  "vec_add v v' = (if length v = length v' then Inr (map2 (+) v v') else Inl ValueError)"

text \<open>Modelled from the spec: \<open>M v + M' v'\<close>, the shape of both equations of the step.\<close>

definition affine ::
  "('a::semiring_0) list list \<Rightarrow> 'a list \<Rightarrow> 'a list list \<Rightarrow> 'a list \<Rightarrow> error + 'a list" where
  "affine M v M' v' = ebind (matvec M v) (\<lambda>p. ebind (matvec M' v') (\<lambda>q. vec_add p q))"

text \<open>Modelled from the spec: \<open>solve_step\<close> of the missing \<open>linuvlm.Dynamic\<close> (section 4.2).\<close>

definition solve_step_spec ::
  "('a::semiring_0) LinearSystem \<Rightarrow> 'a list \<Rightarrow> 'a list option \<Rightarrow> 'a list \<Rightarrow> bool
     \<Rightarrow> error + 'a list \<times> 'a list" where
  "solve_step_spec sys dx_m1 du_m1 du_n transform_state =
     (if sys_remove_predictor sys then
        (case du_m1 of
           None \<Rightarrow> Inl MissingHistory
         | Some du \<Rightarrow>
             ebind (affine (ss_A (sys_SS sys)) dx_m1 (ss_B (sys_SS sys)) du) (\<lambda>h_n.
             ebind (affine (ss_C (sys_SS sys)) h_n (ss_D (sys_SS sys)) du_n) (\<lambda>dy_n.
             Inr (h_n, dy_n))))
      else
        ebind (affine (ss_A (sys_SS sys)) dx_m1 (ss_B (sys_SS sys)) du_n) (\<lambda>x_n.
        ebind (affine (ss_C (sys_SS sys)) x_n (ss_D (sys_SS sys)) du_n) (\<lambda>dy_n.
        Inr (x_n, dy_n))))"

section \<open>Example systems\<close>

text \<open>
  Collaborators for the examples.  Settings are taken as they are; the linear system is
  given; the generator is a uniform flow whose speed is its only state and which fills
  every entry of the external velocity with it; the stepper is the one of the
  specification; \<open>unpack_state\<close> cuts the state into bound circulation, wake circulation and
  circulation rate of the given lengths.
\<close>

definition example_ext ::
  "int LinearSystem \<Rightarrow> nat \<Rightarrow> nat \<Rightarrow> (int, int LinearSystem, int StateSpace, int) Externals" where
  "example_ext sys panels wake_panels =
     \<lparr>to_custom_types = Inr,
      Dynamic = (\<lambda>aero_tstep dt integr_order scaling remove_predictor use_sparse. Inr sys),
      assemble_ss = Inr,
      get_SS = (\<lambda>s. Inr (sys_SS s)),
      generator_from_string = (\<lambda>name. Inr 0),
      generator_initialise = (\<lambda>gen input. Inr (sum_list (map snd input))),
      generate = (\<lambda>gen params field.
                    Inr (map (\<lambda>a. a\<lparr>elems := map (\<lambda>_. gen) (elems a)\<rparr>) field)),
      solve_step = solve_step_spec,
      unpack_state = (\<lambda>s x u. Inr (take panels x,
                                     take wake_panels (drop panels x),
                                     take panels (drop (panels + wake_panels) x)))\<rparr>"

definition example_settings :: "bool \<Rightarrow> int Settings" where
  "example_settings remove =
     \<lparr>s_dt = 1, s_integr_order = 2, s_density = 1,
      s_ScalingDict = [(''length'', 1), (''speed'', 1), (''density'', 1)],
      s_remove_predictor = remove, s_use_sparse = True, s_physical_model = True,
      s_velocity_field_generator = Some ''SteadyVelocityField'',
      s_velocity_field_input = Some [(''u_inf'', 5)]\<rparr>"

text \<open>A system without dynamics, enough for unpacking the two-surface snapshot.\<close>

definition wing_system :: "int LinearSystem" where
  "wing_system =
     \<lparr>sys_SS = \<lparr>ss_A = [], ss_B = [], ss_C = [], ss_D = []\<rparr>, sys_remove_predictor = True\<rparr>"

definition wing_data :: "(int, int LinearSystem, int StateSpace) PreSharpy" where
  "wing_data =
     \<lparr>settings = [solver_id \<mapsto> example_settings True],
      aero_timestep_info = [0],
      aero_linear = Some (empty_linear\<lparr>System := Some wing_system\<rparr>),
      aero_dimensions = [ [1, 2], [2, 1] ],
      aero_dimensions_star = [ [1, 2], [1, 1] ],
      structure_timestep_info = [\<lparr>for_pos = [0, 0, 0]\<rparr>],
      ts = 0\<rparr>"

definition wing_world :: "(int, int LinearSystem, int StateSpace, int) World" where
  "wing_world =
     \<lparr>heap = (\<lambda>a. wing_tstep),
      self_data = Some wing_data,
      self_settings = Some (example_settings True),
      self_velocity_generator = Some 5\<rparr>"

text \<open>A state vector for the two-surface snapshot: four panels, three wake panels.\<close>

definition wing_x :: "int list" where
  "wing_x = [61, 62, 63, 64, 81, 82, 83, 71, 72, 73, 74, 0, 0, 0, 0]"

text \<open>
  The packed forces of the two-surface snapshot, and what unpacking them returns: forces,
  bound circulation, circulation rate, wake circulation.
\<close>

definition wing_y :: "int list" where
  "wing_y = [101, 102, 103, 104, 105, 106, 107, 108, 109, 110, 111, 112]"

definition wing_unpacked ::
  "int ndarray list \<times> int ndarray list \<times> int ndarray list \<times> int ndarray list" where
  "wing_unpacked =
     ([\<lparr>shape = [6, 1, 2], elems = [101, 102, 103, 104, 105, 106, 0, 0, 0, 0, 0, 0]\<rparr>,
       \<lparr>shape = [6, 2, 1], elems = [107, 108, 109, 110, 111, 112, 0, 0, 0, 0, 0, 0]\<rparr>],
      [\<lparr>shape = [1, 2], elems = [61, 62]\<rparr>, \<lparr>shape = [2, 1], elems = [63, 64]\<rparr>],
      [\<lparr>shape = [1, 2], elems = [71, 72]\<rparr>, \<lparr>shape = [2, 1], elems = [73, 74]\<rparr>],
      [\<lparr>shape = [1, 2], elems = [81, 82]\<rparr>, \<lparr>shape = [1, 1], elems = [83]\<rparr>])"

section \<open>What a step may change\<close>

text \<open>
  Between two worlds, nothing differs but the snapshot at address \<open>cur\<close>, and there nothing
  but the external velocity, the forces and the three circulation fields: the number of
  surfaces, the positions, their rates and the density are the same.
\<close>

definition frame ::
  "nat \<Rightarrow> ('a, 'sys, 'ss, 'gen) World \<Rightarrow> ('a, 'sys, 'ss, 'gen) World \<Rightarrow> bool" where
  "frame cur w w' =
     (self_data w' = self_data w
      \<and> self_settings w' = self_settings w
      \<and> self_velocity_generator w' = self_velocity_generator w
      \<and> (\<forall>b. b \<noteq> cur \<longrightarrow> heap w' b = heap w b)
      \<and> n_surf (heap w' cur) = n_surf (heap w cur)
      \<and> zeta (heap w' cur) = zeta (heap w cur)
      \<and> zeta_dot (heap w' cur) = zeta_dot (heap w cur)
      \<and> rho (heap w' cur) = rho (heap w cur))"

section \<open>A small example run\<close>

text \<open>
  One surface with a single vertex: three position entries, one panel, one wake panel.
  The previous snapshot sits at address 0 and the current one at address 1.
\<close>

definition tiny_tstep :: "int AeroTimeStepInfo" where
  "tiny_tstep =
     \<lparr>n_surf = 1,
      zeta = [\<lparr>shape = [3, 1, 1], elems = [1, 2, 3]\<rparr>],
      zeta_dot = [\<lparr>shape = [3, 1, 1], elems = [0, 0, 0]\<rparr>],
      u_ext = [\<lparr>shape = [3, 1, 1], elems = [0, 0, 0]\<rparr>],
      gamma = [\<lparr>shape = [1, 1], elems = [5]\<rparr>],
      gamma_dot = [\<lparr>shape = [1, 1], elems = [2]\<rparr>],
      gamma_star = [\<lparr>shape = [1, 1], elems = [7]\<rparr>],
      forces = [\<lparr>shape = [6, 1, 1], elems = [10, 20, 30, 0, 0, 0]\<rparr>],
      rho = 1\<rparr>"

definition tiny_prev :: "int AeroTimeStepInfo" where
  "tiny_prev = tiny_tstep\<lparr>gamma := [\<lparr>shape = [1, 1], elems = [4]\<rparr>]\<rparr>"

definition tiny_heap :: "nat \<Rightarrow> int AeroTimeStepInfo" where
  "tiny_heap a = (if a = 0 then tiny_prev else tiny_tstep)"

text \<open>
  A linear system for it: four states, nine inputs, three outputs; the last state feeds
  every state, the first three states are the outputs, the inputs have no effect.
\<close>

definition tiny_system :: "bool \<Rightarrow> int LinearSystem" where
  "tiny_system remove =
     \<lparr>sys_SS = \<lparr>ss_A = [ [1, 0, 0, 1], [0, 1, 0, 1], [0, 0, 1, 1], [0, 0, 0, 1] ],
                 ss_B = replicate 4 (replicate 9 0),
                 ss_C = [ [1, 0, 0, 0], [0, 1, 0, 0], [0, 0, 1, 0] ],
                 ss_D = replicate 3 (replicate 9 0)\<rparr>,
      sys_remove_predictor = remove\<rparr>"

text \<open>The data before the first initialisation: two retained snapshots, no linear system.\<close>

definition tiny_data :: "bool \<Rightarrow> (int, int LinearSystem, int StateSpace) PreSharpy" where
  "tiny_data remove =
     \<lparr>settings = [solver_id \<mapsto> example_settings remove],
      aero_timestep_info = [0, 1],
      aero_linear = None,
      aero_dimensions = [ [1, 1] ],
      aero_dimensions_star = [ [1, 1] ],
      structure_timestep_info = [\<lparr>for_pos = [0, 0, 0]\<rparr>],
      ts = 1\<rparr>"

text \<open>A solver fresh from \<open>__init__\<close>.\<close>

definition fresh_world :: "(int, int LinearSystem, int StateSpace, int) World" where
  "fresh_world =
     \<lparr>heap = tiny_heap, self_data = None, self_settings = None, self_velocity_generator = None\<rparr>"

text \<open>
  The linear system state a first initialisation is meant to leave: the reference triple
  of the current snapshot.
\<close>

definition tiny_linear :: "bool \<Rightarrow> (int, int LinearSystem, int StateSpace) Linear" where
  "tiny_linear remove =
     empty_linear\<lparr>System := Some (tiny_system remove), SS := Some (sys_SS (tiny_system remove)),
                  x_0 := Some [5, 7, 2, 3], u_0 := Some [1, 2, 3, 0, 0, 0, 0, 0, 0],
                  y_0 := Some [10, 20, 30]\<rparr>"

text \<open>An initialised solver about to take a step.\<close>

definition tiny_world :: "bool \<Rightarrow> (int, int LinearSystem, int StateSpace, int) World" where
  "tiny_world remove =
     \<lparr>heap = tiny_heap,
      self_data = Some ((tiny_data remove)\<lparr>aero_linear := Some (tiny_linear remove)\<rparr>),
      self_settings = Some (example_settings remove),
      self_velocity_generator = Some 5\<rparr>"

text \<open>What the step prepares for the stepper in the example.\<close>

definition tiny_inputs :: "bool \<Rightarrow> int StepInputs" where
  "tiny_inputs remove =
     \<lparr>i_aero_tstep = 1,
      i_u_n = [1, 2, 3, 0, 0, 0, 5, 5, 5],
      i_du_n = [0, 0, 0, 0, 0, 0, 5, 5, 5],
      i_du_m1 = (if remove then Some [0, 0, 0, 0, 0, 0, 5, 5, 5] else None),
      i_dx_m1 = [0, 0, 0, 1]\<rparr>"

text \<open>The same solver with a single retained snapshot, the current one.\<close>

definition single_data :: "(int, int LinearSystem, int StateSpace) PreSharpy" where
  "single_data = (tiny_data False)\<lparr>aero_timestep_info := [1], aero_linear := Some (tiny_linear False)\<rparr>"

definition single_world :: "(int, int LinearSystem, int StateSpace, int) World" where
  "single_world = (tiny_world False)\<lparr>self_data := Some single_data\<rparr>"

section \<open>Packing: helper lemmas\<close>

lemma mapM_Inr:
  "(\<And>x. x \<in> set xs \<Longrightarrow> f x = Inr (g x)) \<Longrightarrow> mapM f xs = Inr (map g xs)"
  by (induction xs) simp_all

lemma map_nth_upt_take: "k \<le> length xs \<Longrightarrow> map (\<lambda>i. h (xs ! i)) [0 ..< k] = map h (take k xs)"
  by (simp add: list_eq_iff_nth_eq)

lemma flat_surfaces_Inr:
  assumes "nat n \<le> length field"
  shows "flat_surfaces field n = Inr (map ravel (take (nat n) field))"
proof -
  have "mapM (\<lambda>ss. ebind (getitem field ss) (\<lambda>a. Inr (ravel a))) [0 ..< nat n]
          = Inr (map (\<lambda>i. ravel (field ! i)) [0 ..< nat n])"
    using assms by (intro mapM_Inr) (simp add: getitem_def)
  then show ?thesis
    using assms by (simp add: flat_surfaces_def range_py_def map_nth_upt_take)
qed

lemma packed_Inr:
  assumes "0 < n" "nat n \<le> length field"
  shows "ebind (flat_surfaces field n) np_concatenate = Inr (block (nat n) field)"
  using assms by (auto simp add: flat_surfaces_Inr np_concatenate_def block_def)

lemma sum_length_valid:
  "list_all valid_nd xs \<Longrightarrow> sum_list (map (\<lambda>a. length (elems a)) xs) = sum_list (map size_nd xs)"
  by (induction xs) (simp_all add: valid_nd_def)

lemma list_all_take: "list_all P xs \<Longrightarrow> list_all P (take k xs)"
  by (auto simp: list_all_iff dest: in_set_takeD)

lemma length_block:
  assumes "surfaces_ok n field"
  shows "length (block n field) = total_size n field"
proof -
  have "list_all valid_nd (take n field)"
    using assms by (simp add: surfaces_ok_def)
  then show ?thesis
    by (simp add: block_def total_size_def length_concat o_def ravel_def sum_length_valid)
qed

lemma nth_concat_offset:
  "s < length xss \<Longrightarrow> off < length (xss ! s) \<Longrightarrow>
     concat xss ! (sum_list (map length (take s xss)) + off) = xss ! s ! off"
proof (induction xss arbitrary: s)
  case Nil
  then show ?case by simp
next
  case (Cons xs xss)
  show ?case
  proof (cases s)
    case 0
    with Cons.prems show ?thesis by (simp add: nth_append)
  next
    case (Suc s')
    with Cons.prems have "concat xss ! (sum_list (map length (take s' xss)) + off) = xss ! s' ! off"
      by (intro Cons.IH) simp_all
    with Suc show ?thesis by (simp add: nth_append add.assoc)
  qed
qed

lemma row_major_bound: "i < m \<Longrightarrow> j < n \<Longrightarrow> i * n + j < m * (n::nat)"
proof -
  assume "i < m" "j < n"
  then have "i * n + j < Suc i * n" by simp
  also have "\<dots> \<le> m * n" using \<open>i < m\<close> by (intro mult_le_mono1) simp
  finally show ?thesis .
qed

lemma nth_block:
  assumes ok: "surfaces_ok n field" and s: "s < n" and off: "off < size_nd (field ! s)"
  shows "block n field ! (total_size s field + off) = elems (field ! s) ! off"
proof -
  let ?xs = "take n field"
  have len: "s < length ?xs" using ok s by (simp add: surfaces_ok_def)
  have va: "\<And>a. a \<in> set ?xs \<Longrightarrow> length (elems a) = size_nd a"
    using ok by (simp add: surfaces_ok_def list_all_iff valid_nd_def)
  have "?xs ! s \<in> set ?xs" using len by (rule nth_mem)
  then have "length (elems (?xs ! s)) = size_nd (?xs ! s)" by (rule va)
  then have off': "off < length (map ravel ?xs ! s)"
    using len off s by (simp add: ravel_def)
  have "take s ?xs = take s field" using s by (simp add: min_def)
  moreover have "list_all valid_nd ?xs"
    using ok by (simp add: surfaces_ok_def)
  then have "list_all valid_nd (take s ?xs)"
    by (rule list_all_take)
  then have "sum_list (map (\<lambda>a. length (elems a)) (take s ?xs)) = sum_list (map size_nd (take s ?xs))"
    by (rule sum_length_valid)
  ultimately have tot: "sum_list (map length (take s (map ravel ?xs))) = total_size s field"
    by (simp add: total_size_def take_map o_def ravel_def)
  have "concat (map ravel ?xs) ! (sum_list (map length (take s (map ravel ?xs))) + off)
          = map ravel ?xs ! s ! off"
    using len off' by (intro nth_concat_offset) simp_all
  then show ?thesis
    using len s by (simp add: tot block_def ravel_def)
qed

section \<open>The state vector\<close>

text \<open>
  Claim C1.  For a snapshot with at least one surface whose circulation fields are well
  formed, the rate having the shape of the bound circulation: with integration order 1
  the state vector is \<open>gamma @ gamma_star @ dt * gamma_dot\<close>, of length panels + wake
  panels + panels, whatever previous snapshot is given; with integration order 2 and a
  previous snapshot it ends with that snapshot's flattened bound circulation; with
  integration order 2 and no previous snapshot it ends with \<open>gamma - dt * gamma_dot\<close>,
  entry by entry, and has panels more entries.
\<close>

theorem pack_state_vector_order:
  fixes aero_tstep :: "('a::{times,minus}) AeroTimeStepInfo"
  assumes n: "0 < n_surf aero_tstep"
    and g: "surfaces_ok (nat (n_surf aero_tstep)) (gamma aero_tstep)"
    and gs: "surfaces_ok (nat (n_surf aero_tstep)) (gamma_star aero_tstep)"
    and gd: "surfaces_ok (nat (n_surf aero_tstep)) (gamma_dot aero_tstep)"
    and same: "map shape (take (nat (n_surf aero_tstep)) (gamma_dot aero_tstep))
                 = map shape (take (nat (n_surf aero_tstep)) (gamma aero_tstep))"
  defines "G \<equiv> block (nat (n_surf aero_tstep)) (gamma aero_tstep)"
    and "W \<equiv> block (nat (n_surf aero_tstep)) (gamma_star aero_tstep)"
    and "D \<equiv> block (nat (n_surf aero_tstep)) (gamma_dot aero_tstep)"
    and "panels \<equiv> total_size (nat (n_surf aero_tstep)) (gamma aero_tstep)"
    and "wake_panels \<equiv> total_size (nat (n_surf aero_tstep)) (gamma_star aero_tstep)"
  shows "(pack_state_vector aero_tstep aero_tstep_m1 dt 1 = Inr (G @ W @ scale dt D)
          \<and> length (G @ W @ scale dt D) = panels + wake_panels + panels)
       \<and> (nat (n_surf aero_tstep) \<le> length (gamma m1) \<longrightarrow>
            pack_state_vector aero_tstep (Some m1) dt 2
              = Inr (G @ W @ scale dt D @ block (nat (n_surf aero_tstep)) (gamma m1)))
       \<and> (pack_state_vector aero_tstep None dt 2
              = Inr (G @ W @ scale dt D @ map2 (\<lambda>g d. g - dt * d) G D)
          \<and> length (G @ W @ scale dt D @ map2 (\<lambda>g d. g - dt * d) G D)
              = panels + wake_panels + panels + panels)"
proof -
  have lG: "length G = panels" and lW: "length W = wake_panels"
    using g gs by (simp_all add: G_def W_def panels_def wake_panels_def length_block)
  have "map size_nd (take (nat (n_surf aero_tstep)) (gamma_dot aero_tstep))
          = map size_nd (take (nat (n_surf aero_tstep)) (gamma aero_tstep))"
    using arg_cong [OF same, of "map prod_list"] by (simp add: size_nd_def [abs_def] o_def)
  then have "total_size (nat (n_surf aero_tstep)) (gamma_dot aero_tstep) = panels"
    by (simp only: total_size_def panels_def)
  then have lD: "length D = panels"
    using gd by (simp add: D_def length_block)
  have pG: "ebind (flat_surfaces (gamma aero_tstep) (n_surf aero_tstep)) np_concatenate = Inr G"
    and pW: "ebind (flat_surfaces (gamma_star aero_tstep) (n_surf aero_tstep)) np_concatenate = Inr W"
    and pD: "ebind (flat_surfaces (gamma_dot aero_tstep) (n_surf aero_tstep)) np_concatenate = Inr D"
    using n g gs gd by (simp_all add: G_def W_def D_def packed_Inr surfaces_ok_def)
  have sub: "np_sub G (scale dt D) = Inr (map2 (\<lambda>g d. g - dt * d) G D)"
    using lG lD by (simp add: np_sub_def broadcast_def scale_def list_eq_iff_nth_eq)
  have one: "pack_state_vector aero_tstep aero_tstep_m1 dt 1 = Inr (G @ W @ scale dt D)"
    by (simp add: pack_state_vector_def pG pW pD np_concatenate_def)
  have prev: "pack_state_vector aero_tstep (Some m1) dt 2
                = Inr (G @ W @ scale dt D @ block (nat (n_surf aero_tstep)) (gamma m1))"
    if "nat (n_surf aero_tstep) \<le> length (gamma m1)"
    using that n by (simp add: pack_state_vector_def pG pW pD np_concatenate_def packed_Inr)
  have none: "pack_state_vector aero_tstep None dt 2
                = Inr (G @ W @ scale dt D @ map2 (\<lambda>g d. g - dt * d) G D)"
    by (simp add: pack_state_vector_def pG pW pD sub np_concatenate_def)
  show ?thesis
    using one prev none lG lW lD by (simp add: scale_def)
qed

theorem pack_state_vector_order_witness:
  "(pack_state_vector scenario_tstep None (1/10) 1 = Inr [1, 2, 3, 4, 0, 0, 0, 0, 0, 0]
    \<and> length [1, 2, 3, 4, 0, 0, 0, 0, 0, 0 :: real] = 4 + 2 + 4)
   \<and> pack_state_vector scenario_tstep (Some scenario_tstep) (1/10) 2
        = Inr [1, 2, 3, 4, 0, 0, 0, 0, 0, 0, 1, 2, 3, 4]
   \<and> pack_state_vector scenario_tstep None (1/10) 2
        = Inr [1, 2, 3, 4, 0, 0, 0, 0, 0, 0, 1, 2, 3, 4]"
  using pack_state_vector_order [of scenario_tstep None "1/10" scenario_tstep]
  by (simp add: scenario_tstep_def surfaces_ok_def valid_nd_def size_nd_def zeros_def
        block_def total_size_def ravel_def scale_def eval_nat_numeral)

text \<open>
  Claim C2.  The concrete scenario: one surface of two by two vertices, \<open>dt = 0.1\<close>,
  integration order 2, no previous snapshot.  The state vector has 14 entries and its
  last four are \<open>[1, 2, 3, 4]\<close>.
\<close>

theorem pack_state_vector_scenario:
  "pack_state_vector scenario_tstep None (1/10) 2
     = Inr [1, 2, 3, 4, 0, 0, 0, 0, 0, 0, 1, 2, 3, 4]
   \<and> length [1, 2, 3, 4, 0, 0, 0, 0, 0, 0, 1, 2, 3, 4 :: real] = 14
   \<and> drop 10 [1, 2, 3, 4, 0, 0, 0, 0, 0, 0, 1, 2, 3, 4 :: real] = [1, 2, 3, 4]"
  by (simp add: pack_state_vector_def scenario_tstep_def flat_surfaces_def range_py_def getitem_def
        ravel_def zeros_def np_concatenate_def np_sub_def broadcast_def scale_def eval_nat_numeral)

text \<open>
  Claim C10.  The integration order is not validated: every value other than 1 gives the
  state vector of integration order 2.
\<close>

theorem pack_state_vector_other_orders:
  "integr_order \<noteq> 1 \<Longrightarrow>
     pack_state_vector aero_tstep aero_tstep_m1 dt integr_order
       = pack_state_vector aero_tstep aero_tstep_m1 dt 2"
  by (simp add: pack_state_vector_def)

theorem pack_state_vector_other_orders_witness:
  "(0::int) \<noteq> 1 \<and> (3::int) \<noteq> 1
   \<and> pack_state_vector scenario_tstep None (1/10) 0
       = pack_state_vector scenario_tstep None (1/10) 2
   \<and> pack_state_vector scenario_tstep None (1/10) 3
       = Inr [1, 2, 3, 4, 0, 0, 0, 0, 0, 0, 1, 2, 3, 4]"
  using pack_state_vector_other_orders [of 0 scenario_tstep None "1/10"]
    pack_state_vector_other_orders [of 3 scenario_tstep None "1/10"]
  by (simp add: pack_state_vector_def scenario_tstep_def flat_surfaces_def range_py_def getitem_def
        ravel_def zeros_def np_concatenate_def np_sub_def broadcast_def scale_def eval_nat_numeral)

section \<open>The input vector\<close>

text \<open>
  Claim C4.  For a snapshot with at least one surface and well-formed fields, the input
  vector is the block of positions, then the block of position rates, then the block of
  external velocities.  Each block lists the surfaces in index order, and inside a surface
  of shape \<open>(3, m, n)\<close> the entry \<open>(c, i, j)\<close> sits at offset \<open>c * (m * n) + i * n + j\<close>
  after the surfaces before it: row-major order, the component axis slowest.
\<close>

theorem pack_input_vector_blocks:
  assumes n: "0 < n_surf aero_tstep"
    and z: "surfaces_ok (nat (n_surf aero_tstep)) (zeta aero_tstep)"
    and zd: "surfaces_ok (nat (n_surf aero_tstep)) (zeta_dot aero_tstep)"
    and u: "surfaces_ok (nat (n_surf aero_tstep)) (u_ext aero_tstep)"
    and field: "field \<in> {zeta aero_tstep, zeta_dot aero_tstep, u_ext aero_tstep}"
    and s: "s < nat (n_surf aero_tstep)"
    and sh: "shape (field ! s) = [3, m, n]"
    and idx: "c < 3" "i < m" "j < n"
  shows "pack_input_vector aero_tstep
           = Inr (block (nat (n_surf aero_tstep)) (zeta aero_tstep)
                  @ block (nat (n_surf aero_tstep)) (zeta_dot aero_tstep)
                  @ block (nat (n_surf aero_tstep)) (u_ext aero_tstep))
         \<and> block (nat (n_surf aero_tstep)) field ! (total_size s field + (c * (m * n) + i * n + j))
             = item (field ! s) [c, i, j]"
proof -
  have pack: "pack_input_vector aero_tstep
           = Inr (block (nat (n_surf aero_tstep)) (zeta aero_tstep)
                  @ block (nat (n_surf aero_tstep)) (zeta_dot aero_tstep)
                  @ block (nat (n_surf aero_tstep)) (u_ext aero_tstep))"
    using n z zd u by (simp add: pack_input_vector_def packed_Inr surfaces_ok_def np_concatenate_def)
  have ok: "surfaces_ok (nat (n_surf aero_tstep)) field"
    using field z zd u by auto
  have "i * n + j < m * n" using idx by (intro row_major_bound)
  then have "c * (m * n) + (i * n + j) < 3 * (m * n)" using idx by (intro row_major_bound)
  then have off: "c * (m * n) + i * n + j < size_nd (field ! s)"
    using sh by (simp add: size_nd_def add.assoc)
  have "block (nat (n_surf aero_tstep)) field ! (total_size s field + (c * (m * n) + i * n + j))
          = elems (field ! s) ! (c * (m * n) + i * n + j)"
    using ok s off by (rule nth_block)
  then show ?thesis
    using pack sh by (simp add: item_def add.assoc)
qed

theorem pack_input_vector_blocks_witness:
  "pack_input_vector wing_tstep
     = Inr [1, 2, 3, 4, 5, 6, 7, 8, 9, 10, 11, 12,
            21, 22, 23, 24, 25, 26, 27, 28, 29, 30, 31, 32,
            41, 42, 43, 44, 45, 46, 47, 48, 49, 50, 51, 52]
   \<and> block 2 (zeta_dot wing_tstep) ! (6 + (2 * (2 * 1) + 1 * 1 + 0)) = 32
   \<and> item (zeta_dot wing_tstep ! 1) [2, 1, 0] = 32"
  using pack_input_vector_blocks [of wing_tstep "zeta_dot wing_tstep" 1 2 1 2 1 0]
  by (simp add: wing_tstep_def surfaces_ok_def valid_nd_def size_nd_def block_def total_size_def
        ravel_def item_def)

section \<open>Unpacking: helper lemmas\<close>

lemma total_size_Suc:
  "j < length field \<Longrightarrow> total_size (Suc j) field = total_size j field + size_nd (field ! j)"
  by (simp add: total_size_def take_Suc_conv_app_nth)

lemma total_size_mono:
  "j \<le> k \<Longrightarrow> total_size j field \<le> total_size k field"
proof -
  assume "j \<le> k"
  then have "take k field = take j field @ take (k - j) (drop j field)"
    by (metis le_add_diff_inverse take_add)
  then show ?thesis by (simp add: total_size_def)
qed

lemma fits_surface:
  assumes "fits dims field vec n" "j < n"
  shows "j < length dims" "j < length field" "prod_list (dims ! j) = size_nd (field ! j)"
    "total_size j field + size_nd (field ! j) \<le> length vec"
proof -
  show a: "j < length dims" and b: "j < length field"
    using assms by (simp_all add: fits_def)
  have h: "list_all2 (\<lambda>d a. prod_list d = size_nd a) (take n dims) (take n field)"
    using assms by (simp add: fits_def)
  have "prod_list (take n dims ! j) = size_nd (take n field ! j)"
    using list_all2_nthD [OF h, of j] assms a by simp
  then show "prod_list (dims ! j) = size_nd (field ! j)"
    using assms by simp
  have "total_size (Suc j) field \<le> total_size n field"
    using assms by (intro total_size_mono) simp
  then show "total_size j field + size_nd (field ! j) \<le> length vec"
    using assms b by (simp add: total_size_Suc fits_def)
qed

lemma length_slice: "hi \<le> length v \<Longrightarrow> length (slice v lo hi) = hi - lo"
  by (simp add: slice_def)

lemma reshape_slice:
  assumes "prod_list dims = k" "lo + k \<le> length v"
  shows "reshape (slice v lo (lo + k)) dims = Inr \<lparr>shape = dims, elems = slice v lo (lo + k)\<rparr>"
  using assms by (simp add: reshape_def length_slice)

lemma update_last: "length fs = j \<Longrightarrow> (fs @ [a])[j := b] = fs @ [b]"
  by auto

lemma unpack_surface_Inr:
  fixes y :: "('a::zero) list"
  assumes z: "j < length (zeta t)" "shape (zeta t ! j) \<noteq> []"
      "total_size j (zeta t) + size_nd (zeta t ! j) \<le> length y"
    and g: "fits (aero_dimensions d) (gamma t) gv n" "fits (aero_dimensions d) (gamma t) gdv n"
    and gs: "fits (aero_dimensions_star d) (gamma_star t) gsv n"
    and j: "j < n"
    and l: "length fs = j"
  shows "unpack_surface d y gv gsv gdv t j
           \<lparr>l_forces = fs, l_gamma = gm, l_gamma_star = gsm, l_gamma_dot = gdm,
            worked_points = total_size j (zeta t),
            worked_panels = total_size j (gamma t),
            worked_wake_panels = total_size j (gamma_star t)\<rparr>
         = Inr \<lparr>l_forces = fs @ [unpacked_forces y (zeta t) j],
                l_gamma = gm @ [unpacked (aero_dimensions d) (gamma t) gv j],
                l_gamma_star = gsm @ [unpacked (aero_dimensions_star d) (gamma_star t) gsv j],
                l_gamma_dot = gdm @ [unpacked (aero_dimensions d) (gamma t) gdv j],
                worked_points = total_size (Suc j) (zeta t),
                worked_panels = total_size (Suc j) (gamma t),
                worked_wake_panels = total_size (Suc j) (gamma_star t)\<rparr>"
proof -
  note G = fits_surface [OF g(1) j] and GD = fits_surface [OF g(2) j] and GS = fits_surface [OF gs j]
  let ?z = "zeta t ! j"
  let ?f = "\<lparr>shape = shape ?z,
             elems = slice y (total_size j (zeta t)) (total_size j (zeta t) + size_nd ?z)\<rparr>"
  obtain d0 ds where sh: "shape ?z = d0 # ds"
    using z(2) by (cases "shape ?z") auto
  have f: "reshape (slice y (total_size j (zeta t)) (total_size j (zeta t) + size_nd ?z)) (shape ?z)
           = Inr ?f"
    using z(3) by (intro reshape_slice) (simp_all add: size_nd_def)
  have cr: "concatenate_rows ?f (zeros (shape ?z)) = Inr (unpacked_forces y (zeta t) j)"
    using sh by (simp add: concatenate_rows_def zeros_def unpacked_forces_def size_nd_def)
  have c: "reshape (slice gv (total_size j (gamma t))
                      (total_size j (gamma t) + size_nd (gamma t ! j))) (aero_dimensions d ! j)
           = Inr (unpacked (aero_dimensions d) (gamma t) gv j)"
    unfolding unpacked_def using G(3,4) by (intro reshape_slice)
  have cd: "reshape (slice gdv (total_size j (gamma t))
                      (total_size j (gamma t) + size_nd (gamma t ! j))) (aero_dimensions d ! j)
           = Inr (unpacked (aero_dimensions d) (gamma t) gdv j)"
    unfolding unpacked_def using GD(3,4) by (intro reshape_slice)
  have cs: "reshape (slice gsv (total_size j (gamma_star t))
                      (total_size j (gamma_star t) + size_nd (gamma_star t ! j)))
                    (aero_dimensions_star d ! j)
           = Inr (unpacked (aero_dimensions_star d) (gamma_star t) gsv j)"
    unfolding unpacked_def using GS(3,4) by (intro reshape_slice)
  show ?thesis
    using z(1) G(1,2) GS(1,2) l
    by (simp add: unpack_surface_def getitem_def setitem_def Let_def f c cd cs cr
        total_size_Suc nth_append update_last)
qed

lemma unpack_loop_append:
  "unpack_loop d y gv gsv gdv t (xs @ ys) l
     = ebind (unpack_loop d y gv gsv gdv t xs l) (unpack_loop d y gv gsv gdv t ys)"
proof (induction xs arbitrary: l)
  case Nil
  show ?case by simp
next
  case (Cons x xs)
  show ?case
    by (cases "unpack_surface d y gv gsv gdv t x l") (simp_all add: Cons.IH)
qed

lemma unpack_loop_Inr:
  fixes y :: "('a::zero) list"
  assumes z: "fits (map shape (zeta t)) (zeta t) y n" "\<forall>a \<in> set (take n (zeta t)). shape a \<noteq> []"
    and g: "fits (aero_dimensions d) (gamma t) gv n" "fits (aero_dimensions d) (gamma t) gdv n"
    and gs: "fits (aero_dimensions_star d) (gamma_star t) gsv n"
    and k: "k \<le> n"
  shows "unpack_loop d y gv gsv gdv t [0 ..< k]
           \<lparr>l_forces = [], l_gamma = [], l_gamma_star = [], l_gamma_dot = [],
            worked_points = 0, worked_panels = 0, worked_wake_panels = 0\<rparr>
         = Inr \<lparr>l_forces = map (unpacked_forces y (zeta t)) [0 ..< k],
                l_gamma = map (unpacked (aero_dimensions d) (gamma t) gv) [0 ..< k],
                l_gamma_star = map (unpacked (aero_dimensions_star d) (gamma_star t) gsv) [0 ..< k],
                l_gamma_dot = map (unpacked (aero_dimensions d) (gamma t) gdv) [0 ..< k],
                worked_points = total_size k (zeta t),
                worked_panels = total_size k (gamma t),
                worked_wake_panels = total_size k (gamma_star t)\<rparr>"
  using k
proof (induction k)
  case 0
  show ?case by (simp add: total_size_def)
next
  case (Suc k)
  then have k: "k < n" by simp
  note Z = fits_surface [OF z(1) k]
  have "zeta t ! k \<in> set (take n (zeta t))"
    using k Z(2) by (metis in_set_conv_nth length_take min_less_iff_conj nth_take)
  then have ne: "shape (zeta t ! k) \<noteq> []" using z(2) by blast
  have step: "unpack_surface d y gv gsv gdv t k
           \<lparr>l_forces = map (unpacked_forces y (zeta t)) [0 ..< k],
            l_gamma = map (unpacked (aero_dimensions d) (gamma t) gv) [0 ..< k],
            l_gamma_star = map (unpacked (aero_dimensions_star d) (gamma_star t) gsv) [0 ..< k],
            l_gamma_dot = map (unpacked (aero_dimensions d) (gamma t) gdv) [0 ..< k],
            worked_points = total_size k (zeta t),
            worked_panels = total_size k (gamma t),
            worked_wake_panels = total_size k (gamma_star t)\<rparr>
         = Inr \<lparr>l_forces = map (unpacked_forces y (zeta t)) [0 ..< k] @ [unpacked_forces y (zeta t) k],
                l_gamma = map (unpacked (aero_dimensions d) (gamma t) gv) [0 ..< k]
                          @ [unpacked (aero_dimensions d) (gamma t) gv k],
                l_gamma_star = map (unpacked (aero_dimensions_star d) (gamma_star t) gsv) [0 ..< k]
                          @ [unpacked (aero_dimensions_star d) (gamma_star t) gsv k],
                l_gamma_dot = map (unpacked (aero_dimensions d) (gamma t) gdv) [0 ..< k]
                          @ [unpacked (aero_dimensions d) (gamma t) gdv k],
                worked_points = total_size (Suc k) (zeta t),
                worked_panels = total_size (Suc k) (gamma t),
                worked_wake_panels = total_size (Suc k) (gamma_star t)\<rparr>"
    using Z(2) ne Z(4) g gs k by (intro unpack_surface_Inr [where n = n]) simp_all
  have "unpack_loop d y gv gsv gdv t [0 ..< Suc k]
           \<lparr>l_forces = [], l_gamma = [], l_gamma_star = [], l_gamma_dot = [],
            worked_points = 0, worked_panels = 0, worked_wake_panels = 0\<rparr>
        = ebind (unpack_loop d y gv gsv gdv t [0 ..< k]
           \<lparr>l_forces = [], l_gamma = [], l_gamma_star = [], l_gamma_dot = [],
            worked_points = 0, worked_panels = 0, worked_wake_panels = 0\<rparr>)
            (unpack_loop d y gv gsv gdv t [k])"
    by (simp only: upt_Suc_append [OF le0] unpack_loop_append)
  then show ?case
    using Suc.IH k by (simp add: step)
qed

lemma force_shaped_surface:
  assumes "list_all2 force_shaped (take n zs) (take n fs)" "n \<le> length zs" "s < n"
  obtains m k where "shape (zs ! s) = [3, m, k]" "shape (fs ! s) = [6, m, k]"
    "length (elems (fs ! s)) = 6 * (m * k)"
proof -
  have "force_shaped (take n zs ! s) (take n fs ! s)"
    using list_all2_nthD [OF assms(1), of s] assms by simp
  then have fsh: "force_shaped (zs ! s) (fs ! s)" using assms by simp
  then have "length (shape (zs ! s)) = 3" by (simp add: force_shaped_def)
  then obtain c m k where sh: "shape (zs ! s) = [c, m, k]"
    by (auto simp: numeral_3_eq_3 length_Suc_conv)
  with fsh have "shape (zs ! s) = [3, m, k]" "shape (fs ! s) = [6, m, k]"
    "length (elems (fs ! s)) = 6 * (m * k)"
    by (simp_all add: force_shaped_def valid_nd_def size_nd_def)
  then show ?thesis by (rule that)
qed

lemma slice_concat:
  "s < length xss \<Longrightarrow>
     slice (concat xss) (sum_list (map length (take s xss)))
       (sum_list (map length (take s xss)) + length (xss ! s)) = xss ! s"
proof -
  assume s: "s < length xss"
  have "concat xss = concat (take s xss) @ xss ! s @ concat (drop (Suc s) xss)"
    using id_take_nth_drop [OF s] by (metis concat.simps(2) concat_append)
  moreover have "length (concat (take s xss)) = sum_list (map length (take s xss))"
    by (simp add: length_concat)
  ultimately show ?thesis by (simp add: slice_def)
qed

lemma pack_forces_Inr:
  assumes n: "0 < n_surf t" "nat (n_surf t) \<le> length (forces t)"
    and ne: "\<And>s. s < nat (n_surf t) \<Longrightarrow> shape (forces t ! s) \<noteq> []"
  shows "pack_forces t
           = Inr (concat (map (\<lambda>s. take (min 3 (hd (shape (forces t ! s)))
                                          * prod_list (tl (shape (forces t ! s))))
                                      (elems (forces t ! s))) [0 ..< nat (n_surf t)]))"
proof -
  let ?B = "\<lambda>s. take (min 3 (hd (shape (forces t ! s))) * prod_list (tl (shape (forces t ! s))))
                  (elems (forces t ! s))"
  have "mapM (\<lambda>ss. ebind (getitem (forces t) ss) (\<lambda>f.
                    ebind (rows_upto 3 f) (\<lambda>f3. Inr (ravel f3)))) [0 ..< nat (n_surf t)]
          = Inr (map ?B [0 ..< nat (n_surf t)])"
  proof (intro mapM_Inr)
    fix s assume "s \<in> set [0 ..< nat (n_surf t)]"
    then have s: "s < nat (n_surf t)" by simp
    then obtain d ds where "shape (forces t ! s) = d # ds"
      using ne [of s] by (cases "shape (forces t ! s)") auto
    then show "ebind (getitem (forces t) s) (\<lambda>f. ebind (rows_upto 3 f) (\<lambda>f3. Inr (ravel f3)))
                 = Inr (?B s)"
      using s n by (simp add: getitem_def rows_upto_def ravel_def)
  qed
  then show ?thesis
    using n by (simp add: pack_forces_def range_py_def np_concatenate_def)
qed

lemma ebind_eq_Inr: "(ebind m f = Inr r) = (\<exists>x. m = Inr x \<and> f x = Inr r)"
  by (cases m) auto

lemma concatenate_rows_zeros:
  "concatenate_rows \<lparr>shape = sh, elems = e\<rparr> (zeros sh)
     = (if sh = [] then Inl ValueError
        else Inr \<lparr>shape = (hd sh + hd sh) # tl sh, elems = e @ replicate (prod_list sh) 0\<rparr>)"
  by (cases sh) (simp_all add: concatenate_rows_def zeros_def)

lemma reshape_eq_Inr:
  "(reshape v dims = Inr a) = (length v = prod_list dims \<and> a = \<lparr>shape = dims, elems = v\<rparr>)"
  by (auto simp: reshape_def)

lemma getitem_eq_Inr: "(getitem xs i = Inr x) = (i < length xs \<and> x = xs ! i)"
  by (auto simp: getitem_def)

lemma setitem_eq_Inr: "(setitem xs i v = Inr ys) = (i < length xs \<and> ys = xs[i := v])"
  by (auto simp: setitem_def)

lemma length_slice_eq:
  "lo \<le> length v \<Longrightarrow> (length (slice v lo (lo + k)) = k) = (lo + k \<le> length v)"
  by (auto simp: slice_def)

lemma slice_take: "hi \<le> T \<Longrightarrow> slice (take T y) lo hi = slice y lo hi"
  by (simp add: slice_def drop_take min_def)

lemma unpack_loop_single:
  "unpack_loop d y gv gsv gdv t [k] l = unpack_surface d y gv gsv gdv t k l"
  by (cases "unpack_surface d y gv gsv gdv t k l") simp_all

lemma agree_surface:
  assumes "agree dims field n" "j < n" "j < length dims" "j < length field"
  shows "prod_list (dims ! j) = size_nd (field ! j)"
proof -
  have h: "list_all2 (\<lambda>d a. prod_list d = size_nd a) (take n dims) (take n field)"
    using assms by (simp add: agree_def)
  have "prod_list (take n dims ! j) = size_nd (take n field ! j)"
    using list_all2_nthD [OF h, of j] assms by simp
  then show ?thesis using assms by simp
qed

lemma unpack_surface_steps:
  fixes y :: "('a::zero) list"
  assumes "unpack_surface d y gv gsv gdv t j l = Inr l'"
    and "length (l_forces l) = j"
  shows "j < length (zeta t)" "j < length (aero_dimensions d)" "j < length (aero_dimensions_star d)"
    "j < length (gamma t)" "j < length (gamma_star t)"
    and "length (slice y (worked_points l) (worked_points l + size_nd (zeta t ! j)))
                = prod_list (shape (zeta t ! j))"
    and "length (slice gv (worked_panels l) (worked_panels l + size_nd (gamma t ! j)))
                = prod_list (aero_dimensions d ! j)"
    and "length (slice gdv (worked_panels l) (worked_panels l + size_nd (gamma t ! j)))
                = prod_list (aero_dimensions d ! j)"
    and "length (slice gsv (worked_wake_panels l) (worked_wake_panels l + size_nd (gamma_star t ! j)))
                = prod_list (aero_dimensions_star d ! j)"
    and "l_forces l' = l_forces l @ [\<lparr>shape = (hd (shape (zeta t ! j)) + hd (shape (zeta t ! j))) # tl (shape (zeta t ! j)),
                      elems = slice y (worked_points l) (worked_points l + size_nd (zeta t ! j))
                              @ replicate (prod_list (shape (zeta t ! j))) 0\<rparr>]"
    and "l_gamma l' = l_gamma l @ [\<lparr>shape = aero_dimensions d ! j,
            elems = slice gv (worked_panels l) (worked_panels l + size_nd (gamma t ! j))\<rparr>]"
    and "l_gamma_dot l' = l_gamma_dot l @ [\<lparr>shape = aero_dimensions d ! j,
            elems = slice gdv (worked_panels l) (worked_panels l + size_nd (gamma t ! j))\<rparr>]"
    and "l_gamma_star l' = l_gamma_star l @ [\<lparr>shape = aero_dimensions_star d ! j,
            elems = slice gsv (worked_wake_panels l) (worked_wake_panels l + size_nd (gamma_star t ! j))\<rparr>]"
    and "worked_points l' = worked_points l + size_nd (zeta t ! j)"
    and "worked_panels l' = worked_panels l + size_nd (gamma t ! j)"
    and "worked_wake_panels l' = worked_wake_panels l + size_nd (gamma_star t ! j)"
  using assms
  unfolding unpack_surface_def Let_def ebind_eq_Inr reshape_eq_Inr getitem_eq_Inr setitem_eq_Inr
  by (auto simp: concatenate_rows_zeros update_last split: if_splits)


lemma unpack_loop_returns:
  fixes y :: "('a::zero) list"
  assumes "unpack_loop d y gv gsv gdv t [0 ..< k]
             \<lparr>l_forces = [], l_gamma = [], l_gamma_star = [], l_gamma_dot = [],
              worked_points = 0, worked_panels = 0, worked_wake_panels = 0\<rparr> = Inr l'"
  shows "l_forces l' = map (unpacked_forces y (zeta t)) [0 ..< k]
         \<and> l_gamma l' = map (unpacked (aero_dimensions d) (gamma t) gv) [0 ..< k]
         \<and> l_gamma_dot l' = map (unpacked (aero_dimensions d) (gamma t) gdv) [0 ..< k]
         \<and> l_gamma_star l' = map (unpacked (aero_dimensions_star d) (gamma_star t) gsv) [0 ..< k]
         \<and> worked_points l' = total_size k (zeta t)
         \<and> worked_panels l' = total_size k (gamma t)
         \<and> worked_wake_panels l' = total_size k (gamma_star t)
         \<and> total_size k (zeta t) \<le> length y
         \<and> k \<le> length (zeta t) \<and> k \<le> length (gamma t) \<and> k \<le> length (gamma_star t)
         \<and> k \<le> length (aero_dimensions d) \<and> k \<le> length (aero_dimensions_star d)"
  using assms
proof (induction k arbitrary: l')
  case 0
  then show ?case by (auto simp: total_size_def)
next
  case (Suc k)
  let ?l0 = "\<lparr>l_forces = [], l_gamma = [], l_gamma_star = [], l_gamma_dot = [],
              worked_points = 0, worked_panels = 0, worked_wake_panels = 0\<rparr> :: 'a UnpackLocals"
  have "ebind (unpack_loop d y gv gsv gdv t [0 ..< k] ?l0) (unpack_loop d y gv gsv gdv t [k]) = Inr l'"
    using Suc.prems by (simp only: upt_Suc_append [OF le0] unpack_loop_append)
  then obtain l1 where l1: "unpack_loop d y gv gsv gdv t [0 ..< k] ?l0 = Inr l1"
    and step: "unpack_surface d y gv gsv gdv t k l1 = Inr l'"
    by (auto simp: ebind_eq_Inr)
  note IH = Suc.IH [OF l1]
  have len: "length (l_forces l1) = k" using IH by simp
  note D = unpack_surface_steps [OF step len]
  have wp: "worked_points l1 = total_size k (zeta t)" using IH by simp
  have "l_forces l' = map (unpacked_forces y (zeta t)) [0 ..< Suc k]"
    using D(10) IH by (simp add: unpacked_forces_def size_nd_def)
  moreover have "l_gamma l' = map (unpacked (aero_dimensions d) (gamma t) gv) [0 ..< Suc k]"
    using D(11) IH by (simp add: unpacked_def)
  moreover have "l_gamma_dot l' = map (unpacked (aero_dimensions d) (gamma t) gdv) [0 ..< Suc k]"
    using D(12) IH by (simp add: unpacked_def)
  moreover have "l_gamma_star l'
                   = map (unpacked (aero_dimensions_star d) (gamma_star t) gsv) [0 ..< Suc k]"
    using D(13) IH by (simp add: unpacked_def)
  moreover have "worked_points l' = total_size (Suc k) (zeta t)"
    using D(14) D(1) IH by (simp add: total_size_Suc)
  moreover have "worked_panels l' = total_size (Suc k) (gamma t)"
    using D(15) D(4) IH by (simp add: total_size_Suc)
  moreover have "worked_wake_panels l' = total_size (Suc k) (gamma_star t)"
    using D(16) D(5) IH by (simp add: total_size_Suc)
  moreover have "total_size (Suc k) (zeta t) \<le> length y"
  proof -
    have "total_size k (zeta t) \<le> length y" using IH by simp
    then show ?thesis
      using D(6) D(1) wp length_slice_eq [of "total_size k (zeta t)" y "size_nd (zeta t ! k)"]
      by (simp add: total_size_Suc size_nd_def)
  qed
  moreover have "Suc k \<le> length (zeta t)" "Suc k \<le> length (gamma t)"
    "Suc k \<le> length (gamma_star t)" "Suc k \<le> length (aero_dimensions d)"
    "Suc k \<le> length (aero_dimensions_star d)"
    using D(1-5) by simp_all
  ultimately show ?case by simp
qed

text \<open>When the shapes agree with the circulation arrays, a run that returns has read no
  further than the end of the circulation vectors.\<close>

lemma unpack_loop_bounds:
  fixes y :: "('a::zero) list"
  assumes "unpack_loop d y gv gsv gdv t [0 ..< k]
             \<lparr>l_forces = [], l_gamma = [], l_gamma_star = [], l_gamma_dot = [],
              worked_points = 0, worked_panels = 0, worked_wake_panels = 0\<rparr> = Inr l'"
    and "k \<le> n"
  shows "(agree (aero_dimensions d) (gamma t) n \<longrightarrow>
           total_size k (gamma t) \<le> length gv \<and> total_size k (gamma t) \<le> length gdv)
         \<and> (agree (aero_dimensions_star d) (gamma_star t) n \<longrightarrow>
           total_size k (gamma_star t) \<le> length gsv)"
  using assms
proof (induction k arbitrary: l')
  case 0
  show ?case by (simp add: total_size_def)
next
  case (Suc k)
  let ?l0 = "\<lparr>l_forces = [], l_gamma = [], l_gamma_star = [], l_gamma_dot = [],
              worked_points = 0, worked_panels = 0, worked_wake_panels = 0\<rparr> :: 'a UnpackLocals"
  have e: "ebind (unpack_loop d y gv gsv gdv t [0 ..< k] ?l0) (unpack_loop d y gv gsv gdv t [k]) = Inr l'"
    using Suc.prems(1) by (simp only: upt_Suc_append [OF le0] unpack_loop_append)
  then obtain l1 where l1: "unpack_loop d y gv gsv gdv t [0 ..< k] ?l0 = Inr l1"
    and step: "unpack_surface d y gv gsv gdv t k l1 = Inr l'"
    by (auto simp: ebind_eq_Inr)
  note R = unpack_loop_returns [OF l1]
  have len: "length (l_forces l1) = k" using R by simp
  note D = unpack_surface_steps [OF step len]
  have k: "k \<le> n" "k < n" using Suc.prems(2) by simp_all
  note IH = Suc.IH [OF l1 k(1)]
  have c: "total_size (Suc k) (gamma t) \<le> length gv \<and> total_size (Suc k) (gamma t) \<le> length gdv"
    if a: "agree (aero_dimensions d) (gamma t) n"
  proof -
    have p: "prod_list (aero_dimensions d ! k) = size_nd (gamma t ! k)"
      using a k(2) D(2) D(4) by (rule agree_surface)
    have b: "total_size k (gamma t) \<le> length gv" "total_size k (gamma t) \<le> length gdv"
      using IH a by simp_all
    have wp: "worked_panels l1 = total_size k (gamma t)" using R by simp
    have "total_size (Suc k) (gamma t) \<le> length gv"
      using D(7) D(4) p wp b(1) length_slice_eq [of "total_size k (gamma t)" gv "size_nd (gamma t ! k)"]
      by (simp add: total_size_Suc)
    moreover have "total_size (Suc k) (gamma t) \<le> length gdv"
      using D(8) D(4) p wp b(2) length_slice_eq [of "total_size k (gamma t)" gdv "size_nd (gamma t ! k)"]
      by (simp add: total_size_Suc)
    ultimately show ?thesis by simp
  qed
  have s: "total_size (Suc k) (gamma_star t) \<le> length gsv"
    if a: "agree (aero_dimensions_star d) (gamma_star t) n"
  proof -
    have p: "prod_list (aero_dimensions_star d ! k) = size_nd (gamma_star t ! k)"
      using a k(2) D(3) D(5) by (rule agree_surface)
    have b: "total_size k (gamma_star t) \<le> length gsv"
      using IH a by simp
    have wp: "worked_wake_panels l1 = total_size k (gamma_star t)" using R by simp
    show ?thesis
      using D(9) D(5) p wp b
        length_slice_eq [of "total_size k (gamma_star t)" gsv "size_nd (gamma_star t ! k)"]
      by (simp add: total_size_Suc)
  qed
  show ?case using c s by blast
qed

lemma unpack_surface_cut:
  fixes y :: "('a::zero) list"
  assumes "j < length (zeta t) \<longrightarrow> worked_points l + size_nd (zeta t ! j) \<le> T"
    and "j < length (gamma t) \<longrightarrow> worked_panels l + size_nd (gamma t ! j) \<le> P"
    and "j < length (gamma_star t) \<longrightarrow> worked_wake_panels l + size_nd (gamma_star t ! j) \<le> W"
  shows "unpack_surface d (take T y) (take P gv) (take W gsv) (take P gdv) t j l
           = unpack_surface d y gv gsv gdv t j l"
proof (cases "j < length (zeta t) \<and> j < length (gamma t) \<and> j < length (gamma_star t)")
  case True
  then show ?thesis
    using assms by (simp add: unpack_surface_def getitem_def Let_def slice_take)
next
  case False
  then show ?thesis by (auto simp: unpack_surface_def getitem_def)
qed

lemma unpack_loop_cut:
  fixes y :: "('a::zero) list"
  assumes "k \<le> n"
  shows "unpack_loop d (take (total_size n (zeta t)) y) (take (total_size n (gamma t)) gv)
             (take (total_size n (gamma_star t)) gsv) (take (total_size n (gamma t)) gdv) t [0 ..< k]
             \<lparr>l_forces = [], l_gamma = [], l_gamma_star = [], l_gamma_dot = [],
              worked_points = 0, worked_panels = 0, worked_wake_panels = 0\<rparr>
         = unpack_loop d y gv gsv gdv t [0 ..< k]
             \<lparr>l_forces = [], l_gamma = [], l_gamma_star = [], l_gamma_dot = [],
              worked_points = 0, worked_panels = 0, worked_wake_panels = 0\<rparr>"
  using assms
proof (induction k)
  case 0
  show ?case by simp
next
  case (Suc k)
  let ?l0 = "\<lparr>l_forces = [], l_gamma = [], l_gamma_star = [], l_gamma_dot = [],
              worked_points = 0, worked_panels = 0, worked_wake_panels = 0\<rparr> :: 'a UnpackLocals"
  let ?T = "total_size n (zeta t)"
  let ?P = "total_size n (gamma t)"
  let ?W = "total_size n (gamma_star t)"
  have IH: "unpack_loop d (take ?T y) (take ?P gv) (take ?W gsv) (take ?P gdv) t [0 ..< k] ?l0
              = unpack_loop d y gv gsv gdv t [0 ..< k] ?l0"
    using Suc by simp
  show ?case
  proof (cases "unpack_loop d y gv gsv gdv t [0 ..< k] ?l0")
    case (Inl e)
    then show ?thesis
      by (simp only: upt_Suc_append [OF le0] unpack_loop_append IH ebind.simps)
  next
    case (Inr l1)
    note R = unpack_loop_returns [OF Inr]
    have b: "total_size k field + size_nd (field ! k) \<le> total_size n field"
      if "k < length field" for field :: "'a ndarray list"
    proof -
      have "total_size (Suc k) field \<le> total_size n field"
        using Suc.prems by (intro total_size_mono) simp
      then show ?thesis using that by (simp add: total_size_Suc)
    qed
    have "unpack_surface d (take ?T y) (take ?P gv) (take ?W gsv) (take ?P gdv) t k l1
            = unpack_surface d y gv gsv gdv t k l1"
      using R b by (intro unpack_surface_cut) simp_all
    then show ?thesis
      by (simp only: upt_Suc_append [OF le0] unpack_loop_append IH Inr ebind.simps unpack_loop_single)
  qed
qed

lemma wing_unpack:
  "unpack_ss_vectors (example_ext wing_system 4 3) wing_world wing_y wing_x [] wing_tstep
     = Inr wing_unpacked"
  by code_simp

lemma wing_pack_forces: "pack_forces wing_tstep = Inr wing_y"
  by code_simp

section \<open>Forces: packing, then unpacking\<close>

text \<open>
  Claim C5.  Take a snapshot with at least one surface, position grids of shape
  \<open>(3, m, n)\<close> and well-formed force arrays of shape \<open>(6, m, n)\<close>, and a linear system whose
  \<open>unpack_state\<close> returns circulation vectors that fit the snapshot.  Packing the first
  three force rows of every surface and unpacking that vector succeeds; the force array of
  surface \<open>s\<close> comes back with shape \<open>(6, m, n)\<close>, its first three rows equal to the original
  ones entry by entry and its last three rows zero.
\<close>

theorem forces_round_trip:
  fixes ext :: "('a::zero, 'sys, 'ss, 'gen) Externals"
  assumes n: "0 < n_surf t"
    and z: "nat (n_surf t) \<le> length (zeta t)"
    and f: "nat (n_surf t) \<le> length (forces t)"
    and sh: "list_all2 force_shaped (take (nat (n_surf t)) (zeta t)) (take (nat (n_surf t)) (forces t))"
    and d: "self_data w = Some d"
    and lin: "aero_linear d = Some lin"
    and sys: "System lin = Some sys"
    and us: "unpack_state ext sys x_n u_n = Inr (gamma_vec, gamma_star_vec, gamma_dot_vec)"
    and g: "fits (aero_dimensions d) (gamma t) gamma_vec (nat (n_surf t))"
    and gd: "fits (aero_dimensions d) (gamma t) gamma_dot_vec (nat (n_surf t))"
    and gs: "fits (aero_dimensions_star d) (gamma_star t) gamma_star_vec (nat (n_surf t))"
    and s: "s < nat (n_surf t)"
    and shs: "shape (zeta t ! s) = [3, m, k]"
    and idx: "c < 6" "i < m" "j < k"
  shows "\<exists>y F G GD GS.
           pack_forces t = Inr y
           \<and> unpack_ss_vectors ext w y x_n u_n t = Inr (F, G, GD, GS)
           \<and> length F = nat (n_surf t)
           \<and> shape (F ! s) = [6, m, k]
           \<and> item (F ! s) [c, i, j] = (if c < 3 then item (forces t ! s) [c, i, j] else 0)"
proof -
  let ?n = "nat (n_surf t)"
  let ?B = "\<lambda>s. take (min 3 (hd (shape (forces t ! s))) * prod_list (tl (shape (forces t ! s))))
                  (elems (forces t ! s))"
  let ?y = "concat (map ?B [0 ..< ?n])"
  have surf: "shape (zeta t ! r) \<noteq> [] \<and> shape (forces t ! r) \<noteq> []
              \<and> length (?B r) = size_nd (zeta t ! r)" if r: "r < ?n" for r
  proof -
    obtain m' k' where "shape (zeta t ! r) = [3, m', k']" "shape (forces t ! r) = [6, m', k']"
      "length (elems (forces t ! r)) = 6 * (m' * k')"
      using force_shaped_surface [OF sh z r] by blast
    then show ?thesis by (simp add: size_nd_def)
  qed
  have py: "pack_forces t = Inr ?y"
  proof (rule pack_forces_Inr [OF n f])
    fix r assume "r < ?n"
    then show "shape (forces t ! r) \<noteq> []" using surf [of r] by blast
  qed
  have lens: "map length (take r (map ?B [0 ..< ?n])) = map size_nd (take r (zeta t))"
    if r: "r \<le> ?n" for r
  proof (rule nth_equalityI)
    show "length (map length (take r (map ?B [0 ..< ?n]))) = length (map size_nd (take r (zeta t)))"
      using r z by simp
  next
    fix q assume "q < length (map length (take r (map ?B [0 ..< ?n])))"
    then have q: "q < r" by simp
    then have "length (?B q) = size_nd (zeta t ! q)" using surf [of q] r by simp
    then show "map length (take r (map ?B [0 ..< ?n])) ! q = map size_nd (take r (zeta t)) ! q"
      using q r z by simp
  qed
  have tot: "sum_list (map length (take r (map ?B [0 ..< ?n]))) = total_size r (zeta t)"
    if "r \<le> ?n" for r
    by (simp only: lens [OF that] total_size_def)
  have "length ?y = total_size ?n (zeta t)"
    using tot [of ?n] by (simp add: length_concat o_def)
  then have fz: "fits (map shape (zeta t)) (zeta t) ?y ?n"
    using z by (simp add: fits_def take_map list_all2_map1 size_nd_def list_all2_same)
  have ne: "\<forall>a \<in> set (take ?n (zeta t)). shape a \<noteq> []"
  proof
    fix a assume "a \<in> set (take ?n (zeta t))"
    then obtain q where "q < ?n" "a = zeta t ! q"
      using z by (auto simp: in_set_conv_nth)
    then show "shape a \<noteq> []" using surf [of q] by simp
  qed
  have loop: "unpack_loop d ?y gamma_vec gamma_star_vec gamma_dot_vec t [0 ..< ?n]
           \<lparr>l_forces = [], l_gamma = [], l_gamma_star = [], l_gamma_dot = [],
            worked_points = 0, worked_panels = 0, worked_wake_panels = 0\<rparr>
         = Inr \<lparr>l_forces = map (unpacked_forces ?y (zeta t)) [0 ..< ?n],
                l_gamma = map (unpacked (aero_dimensions d) (gamma t) gamma_vec) [0 ..< ?n],
                l_gamma_star = map (unpacked (aero_dimensions_star d) (gamma_star t) gamma_star_vec) [0 ..< ?n],
                l_gamma_dot = map (unpacked (aero_dimensions d) (gamma t) gamma_dot_vec) [0 ..< ?n],
                worked_points = total_size ?n (zeta t),
                worked_panels = total_size ?n (gamma t),
                worked_wake_panels = total_size ?n (gamma_star t)\<rparr>"
    using fz ne g gd gs by (intro unpack_loop_Inr [where n = ?n]) simp_all
  have un: "unpack_ss_vectors ext w ?y x_n u_n t
          = Inr (map (unpacked_forces ?y (zeta t)) [0 ..< ?n],
                 map (unpacked (aero_dimensions d) (gamma t) gamma_vec) [0 ..< ?n],
                 map (unpacked (aero_dimensions d) (gamma t) gamma_dot_vec) [0 ..< ?n],
                 map (unpacked (aero_dimensions_star d) (gamma_star t) gamma_star_vec) [0 ..< ?n])"
    by (simp add: unpack_ss_vectors_def the_linear_def the_data_def d lin sys key_def us range_py_def loop)
  obtain m' k' where "shape (zeta t ! s) = [3, m', k']" and fsh': "shape (forces t ! s) = [6, m', k']"
      and flen': "length (elems (forces t ! s)) = 6 * (m' * k')"
    using force_shaped_surface [OF sh z s] by blast
  with shs have fsh: "shape (forces t ! s) = [6, m, k]"
    and flen: "length (elems (forces t ! s)) = 6 * (m * k)" by simp_all
  have Bs: "?B s = take (3 * (m * k)) (elems (forces t ! s))"
    using fsh by simp
  have "slice ?y (sum_list (map length (take s (map ?B [0 ..< ?n]))))
          (sum_list (map length (take s (map ?B [0 ..< ?n]))) + length (map ?B [0 ..< ?n] ! s))
        = map ?B [0 ..< ?n] ! s"
    using s by (intro slice_concat) simp
  then have sl: "slice ?y (total_size s (zeta t)) (total_size s (zeta t) + size_nd (zeta t ! s))
                   = take (3 * (m * k)) (elems (forces t ! s))"
    using s surf [of s] tot [of s] Bs by (simp del: length_take)
  have F: "unpacked_forces ?y (zeta t) s
             = \<lparr>shape = [6, m, k],
                elems = take (3 * (m * k)) (elems (forces t ! s)) @ replicate (3 * (m * k)) 0\<rparr>"
  proof -
    have sz: "size_nd (zeta t ! s) = 3 * (m * k)" using shs by (simp add: size_nd_def)
    note sl' = sl [unfolded sz]
    show ?thesis
      by (simp add: unpacked_forces_def sz sl' shs)
  qed
  have ij: "i * k + j < m * k" using idx(2,3) by (rule row_major_bound)
  have off: "c * (m * k) + (i * k + j) < 6 * (m * k)" using idx(1) ij by (rule row_major_bound)
  have it: "item (unpacked_forces ?y (zeta t) s) [c, i, j]
              = (if c < 3 then item (forces t ! s) [c, i, j] else 0)"
  proof (cases "c < 3")
    case True
    have "c * (m * k) + (i * k + j) < 3 * (m * k)"
      using True ij by (rule row_major_bound)
    then show ?thesis
      using True flen by (simp add: F item_def fsh nth_append)
  next
    case False
    then have "3 \<le> c" by simp
    then have "3 * (m * k) \<le> c * (m * k)" by (rule mult_le_mono1)
    then have "3 * (m * k) \<le> c * (m * k) + (i * k + j)" by (rule trans_le_add1)
    then show ?thesis
      using False flen off by (simp add: F item_def nth_append)
  qed
  let ?F = "map (unpacked_forces ?y (zeta t)) [0 ..< ?n]"
  have len: "length ?F = ?n" by simp
  have Fs: "?F ! s = unpacked_forces ?y (zeta t) s" using s by simp
  have shF: "shape (?F ! s) = [6, m, k]" unfolding Fs F by simp
  have itF: "item (?F ! s) [c, i, j] = (if c < 3 then item (forces t ! s) [c, i, j] else 0)"
    unfolding Fs by (rule it)
  from py un len shF itF show ?thesis by blast
qed

theorem forces_round_trip_witness:
  "pack_forces wing_tstep = Inr wing_y
   \<and> (\<exists>F G GD GS.
         unpack_ss_vectors (example_ext wing_system 4 3) wing_world wing_y wing_x [] wing_tstep
           = Inr (F, G, GD, GS)
         \<and> length F = 2 \<and> shape (F ! 1) = [6, 2, 1]
         \<and> item (F ! 1) [1, 1, 0] = item (forces wing_tstep ! 1) [1, 1, 0]
         \<and> item (F ! 1) [1, 1, 0] = 110
         \<and> item (forces wing_tstep ! 1) [4, 1, 0] = 9
         \<and> item (F ! 1) [4, 1, 0] = 0)"
proof -
  have n: "0 < n_surf wing_tstep" by code_simp
  have z: "nat (n_surf wing_tstep) \<le> length (zeta wing_tstep)" by code_simp
  have f: "nat (n_surf wing_tstep) \<le> length (forces wing_tstep)" by code_simp
  have sh: "list_all2 force_shaped (take (nat (n_surf wing_tstep)) (zeta wing_tstep))
              (take (nat (n_surf wing_tstep)) (forces wing_tstep))" by code_simp
  have d: "self_data wing_world = Some wing_data" by (simp add: wing_world_def)
  have lin: "aero_linear wing_data = Some (empty_linear\<lparr>System := Some wing_system\<rparr>)"
    by (simp add: wing_data_def)
  have sys: "System (empty_linear\<lparr>System := Some wing_system\<rparr>) = Some wing_system" by simp
  have us: "unpack_state (example_ext wing_system 4 3) wing_system wing_x []
              = Inr ([61, 62, 63, 64], [81, 82, 83], [71, 72, 73, 74])" by code_simp
  have g: "fits (aero_dimensions wing_data) (gamma wing_tstep) [61, 62, 63, 64 :: int]
             (nat (n_surf wing_tstep))" by code_simp
  have gd: "fits (aero_dimensions wing_data) (gamma wing_tstep) [71, 72, 73, 74 :: int]
              (nat (n_surf wing_tstep))" by code_simp
  have gs: "fits (aero_dimensions_star wing_data) (gamma_star wing_tstep) [81, 82, 83 :: int]
              (nat (n_surf wing_tstep))" by code_simp
  have s: "1 < nat (n_surf wing_tstep)" by code_simp
  have shs: "shape (zeta wing_tstep ! 1) = [3, 2, 1]" by code_simp
  note rt = forces_round_trip [OF n z f sh d lin sys us g gd gs s shs]
  have lo: "item (forces wing_tstep ! 1) [1, 1, 0] = 110"
    and hi: "item (forces wing_tstep ! 1) [4, 1, 0] = 9" by code_simp+
  have n2: "nat (n_surf wing_tstep) = 2" by code_simp
  from rt [of 1 1 0] rt [of 4 1 0] show ?thesis
    using wing_pack_forces lo hi n2 by auto
qed

section \<open>How much of each vector unpacking reads\<close>

text \<open>
  Claim C6 as the code has it.  \<open>unpack_ss_vectors\<close> hands the state and input vectors whole
  to \<open>unpack_state\<close> of the linear system, which returns the vectors of bound circulation,
  wake circulation and circulation rate.  It then cuts the output vector and these three
  vectors surface by surface, in surface order: surface \<open>j\<close> gets the stretch that starts
  after the sizes of the surfaces before it, as long as the position grid (for the
  output), the bound circulation (for circulation and its rate) or the wake circulation
  of that surface.  When every vector holds at least the sum of these sizes, and the
  recorded panel shapes have the sizes of the circulation arrays, the call returns exactly
  these stretches.  Whenever it returns, it has returned them.  An output vector shorter
  than its sum makes the call raise; so does a circulation vector shorter than its sum,
  when the recorded shapes have the sizes of the circulation arrays.  Longer vectors are
  accepted: the call does what it does for the vectors cut to their sums, the surplus is
  never read.
\<close>

theorem unpack_ss_vectors_consumes:
  fixes ext :: "('a::zero, 'sys, 'ss, 'gen) Externals"
  assumes d: "self_data w = Some d"
    and lin: "aero_linear d = Some lin"
    and sys: "System lin = Some sys"
    and us: "unpack_state ext sys x_n u_n = Inr (gamma_vec, gamma_star_vec, gamma_dot_vec)"
  shows "(fits (map shape (zeta t)) (zeta t) y_n (nat (n_surf t))
          \<and> list_all (\<lambda>a. shape a \<noteq> []) (take (nat (n_surf t)) (zeta t))
          \<and> fits (aero_dimensions d) (gamma t) gamma_vec (nat (n_surf t))
          \<and> fits (aero_dimensions d) (gamma t) gamma_dot_vec (nat (n_surf t))
          \<and> fits (aero_dimensions_star d) (gamma_star t) gamma_star_vec (nat (n_surf t)) \<longrightarrow>
            unpack_ss_vectors ext w y_n x_n u_n t
              = Inr (map (unpacked_forces y_n (zeta t)) [0 ..< nat (n_surf t)],
                     map (unpacked (aero_dimensions d) (gamma t) gamma_vec) [0 ..< nat (n_surf t)],
                     map (unpacked (aero_dimensions d) (gamma t) gamma_dot_vec) [0 ..< nat (n_surf t)],
                     map (unpacked (aero_dimensions_star d) (gamma_star t) gamma_star_vec)
                       [0 ..< nat (n_surf t)]))
       \<and> (unpack_ss_vectors ext w y_n x_n u_n t = Inr (F, G, GD, GS) \<longrightarrow>
            total_size (nat (n_surf t)) (zeta t) \<le> length y_n
            \<and> F = map (unpacked_forces y_n (zeta t)) [0 ..< nat (n_surf t)]
            \<and> G = map (unpacked (aero_dimensions d) (gamma t) gamma_vec) [0 ..< nat (n_surf t)]
            \<and> GD = map (unpacked (aero_dimensions d) (gamma t) gamma_dot_vec) [0 ..< nat (n_surf t)]
            \<and> GS = map (unpacked (aero_dimensions_star d) (gamma_star t) gamma_star_vec)
                     [0 ..< nat (n_surf t)])
       \<and> (length y_n < total_size (nat (n_surf t)) (zeta t) \<longrightarrow>
            isl (unpack_ss_vectors ext w y_n x_n u_n t))
       \<and> (agree (aero_dimensions d) (gamma t) (nat (n_surf t))
          \<and> (length gamma_vec < total_size (nat (n_surf t)) (gamma t)
             \<or> length gamma_dot_vec < total_size (nat (n_surf t)) (gamma t)) \<longrightarrow>
            isl (unpack_ss_vectors ext w y_n x_n u_n t))
       \<and> (agree (aero_dimensions_star d) (gamma_star t) (nat (n_surf t))
          \<and> length gamma_star_vec < total_size (nat (n_surf t)) (gamma_star t) \<longrightarrow>
            isl (unpack_ss_vectors ext w y_n x_n u_n t))
       \<and> unpack_ss_vectors ext w y_n x_n u_n t
           = unpack_ss_vectors
               (ext\<lparr>unpack_state := \<lambda>s x u.
                      Inr (take (total_size (nat (n_surf t)) (gamma t)) gamma_vec,
                           take (total_size (nat (n_surf t)) (gamma_star t)) gamma_star_vec,
                           take (total_size (nat (n_surf t)) (gamma t)) gamma_dot_vec)\<rparr>)
               w (take (total_size (nat (n_surf t)) (zeta t)) y_n) x_n u_n t"
proof -
  let ?n = "nat (n_surf t)"
  let ?l0 = "\<lparr>l_forces = [], l_gamma = [], l_gamma_star = [], l_gamma_dot = [],
              worked_points = 0, worked_panels = 0, worked_wake_panels = 0\<rparr> :: 'a UnpackLocals"
  let ?loop = "unpack_loop d y_n gamma_vec gamma_star_vec gamma_dot_vec t [0 ..< ?n] ?l0"
  let ?R = "(map (unpacked_forces y_n (zeta t)) [0 ..< ?n],
             map (unpacked (aero_dimensions d) (gamma t) gamma_vec) [0 ..< ?n],
             map (unpacked (aero_dimensions d) (gamma t) gamma_dot_vec) [0 ..< ?n],
             map (unpacked (aero_dimensions_star d) (gamma_star t) gamma_star_vec) [0 ..< ?n])"
  have run: "unpack_ss_vectors ext w y_n x_n u_n t
               = ebind ?loop (\<lambda>l. Inr (l_forces l, l_gamma l, l_gamma_dot l, l_gamma_star l))"
    by (simp add: unpack_ss_vectors_def the_linear_def the_data_def d lin sys key_def us range_py_def)
  have ret: "total_size ?n (zeta t) \<le> length y_n \<and> r = ?R
             \<and> (agree (aero_dimensions d) (gamma t) ?n \<longrightarrow>
                  total_size ?n (gamma t) \<le> length gamma_vec
                  \<and> total_size ?n (gamma t) \<le> length gamma_dot_vec)
             \<and> (agree (aero_dimensions_star d) (gamma_star t) ?n \<longrightarrow>
                  total_size ?n (gamma_star t) \<le> length gamma_star_vec)"
    if "unpack_ss_vectors ext w y_n x_n u_n t = Inr r" for r
  proof -
    from that obtain l' where l': "?loop = Inr l'"
      and r: "r = (l_forces l', l_gamma l', l_gamma_dot l', l_gamma_star l')"
      unfolding run ebind_eq_Inr by auto
    show ?thesis
      using unpack_loop_returns [OF l'] unpack_loop_bounds [OF l' order_refl] r by simp
  qed
  have fit: "unpack_ss_vectors ext w y_n x_n u_n t = Inr ?R"
    if z: "fits (map shape (zeta t)) (zeta t) y_n ?n"
      and ne: "list_all (\<lambda>a. shape a \<noteq> []) (take ?n (zeta t))"
      and g: "fits (aero_dimensions d) (gamma t) gamma_vec ?n"
      and gd: "fits (aero_dimensions d) (gamma t) gamma_dot_vec ?n"
      and gs: "fits (aero_dimensions_star d) (gamma_star t) gamma_star_vec ?n"
  proof -
    have ne': "\<forall>a \<in> set (take ?n (zeta t)). shape a \<noteq> []"
      using ne by (simp add: list_all_iff)
    show ?thesis
      unfolding run
      by (simp add: unpack_loop_Inr [OF z ne' g gd gs order_refl])
  qed
  have failing: "isl (unpack_ss_vectors ext w y_n x_n u_n t)"
    if "\<And>r. unpack_ss_vectors ext w y_n x_n u_n t = Inr r \<Longrightarrow> False"
    using that by (cases "unpack_ss_vectors ext w y_n x_n u_n t") auto
  have short_y: "isl (unpack_ss_vectors ext w y_n x_n u_n t)"
    if "length y_n < total_size ?n (zeta t)"
    using ret that by (intro failing) fastforce
  have short_g: "isl (unpack_ss_vectors ext w y_n x_n u_n t)"
    if "agree (aero_dimensions d) (gamma t) ?n"
      and "length gamma_vec < total_size ?n (gamma t)
             \<or> length gamma_dot_vec < total_size ?n (gamma t)"
    using ret that by (intro failing) fastforce
  have short_gs: "isl (unpack_ss_vectors ext w y_n x_n u_n t)"
    if "agree (aero_dimensions_star d) (gamma_star t) ?n"
      and "length gamma_star_vec < total_size ?n (gamma_star t)"
    using ret that by (intro failing) fastforce
  have cut: "unpack_ss_vectors ext w y_n x_n u_n t
           = unpack_ss_vectors
               (ext\<lparr>unpack_state := \<lambda>s x u.
                      Inr (take (total_size ?n (gamma t)) gamma_vec,
                           take (total_size ?n (gamma_star t)) gamma_star_vec,
                           take (total_size ?n (gamma t)) gamma_dot_vec)\<rparr>)
               w (take (total_size ?n (zeta t)) y_n) x_n u_n t"
    unfolding run
    by (simp add: unpack_ss_vectors_def the_linear_def the_data_def d lin sys key_def range_py_def
        unpack_loop_cut [OF order_refl])
  have rets: "total_size ?n (zeta t) \<le> length y_n
            \<and> F = map (unpacked_forces y_n (zeta t)) [0 ..< ?n]
            \<and> G = map (unpacked (aero_dimensions d) (gamma t) gamma_vec) [0 ..< ?n]
            \<and> GD = map (unpacked (aero_dimensions d) (gamma t) gamma_dot_vec) [0 ..< ?n]
            \<and> GS = map (unpacked (aero_dimensions_star d) (gamma_star t) gamma_star_vec) [0 ..< ?n]"
    if "unpack_ss_vectors ext w y_n x_n u_n t = Inr (F, G, GD, GS)"
    using ret [OF that] by simp
  show ?thesis
    using fit rets short_y short_g short_gs cut by blast
qed

theorem unpack_ss_vectors_consumes_witness:
  "unpack_ss_vectors (example_ext wing_system 4 3) wing_world wing_y wing_x [] wing_tstep
       = Inr wing_unpacked
   \<and> total_size (nat (n_surf wing_tstep)) (zeta wing_tstep) = 12 \<and> length wing_y = 12
   \<and> isl (unpack_ss_vectors (example_ext wing_system 4 3) wing_world (butlast wing_y) wing_x []
             wing_tstep)
   \<and> unpack_state (example_ext wing_system 3 3) wing_system wing_x []
       = Inr ([61, 62, 63], [64, 81, 82], [83, 71, 72])
   \<and> total_size (nat (n_surf wing_tstep)) (gamma wing_tstep) = 4
   \<and> isl (unpack_ss_vectors (example_ext wing_system 3 3) wing_world wing_y wing_x [] wing_tstep)
   \<and> unpack_state (example_ext wing_system 5 3) wing_system wing_x []
       = Inr ([61, 62, 63, 64, 81], [82, 83, 71], [72, 73, 74, 0, 0])
   \<and> unpack_ss_vectors (example_ext wing_system 5 3) wing_world (wing_y @ [999]) wing_x []
        wing_tstep
       = Inr (fst wing_unpacked,
              [\<lparr>shape = [1, 2], elems = [61, 62]\<rparr>, \<lparr>shape = [2, 1], elems = [63, 64]\<rparr>],
              [\<lparr>shape = [1, 2], elems = [72, 73]\<rparr>, \<lparr>shape = [2, 1], elems = [74, 0]\<rparr>],
              [\<lparr>shape = [1, 2], elems = [82, 83]\<rparr>, \<lparr>shape = [1, 1], elems = [71]\<rparr>])
   \<and> unpack_ss_vectors (example_ext wing_system 5 3) wing_world (wing_y @ [999]) wing_x []
        wing_tstep
       = unpack_ss_vectors
           ((example_ext wing_system 5 3)
              \<lparr>unpack_state := \<lambda>s x u. Inr ([61, 62, 63, 64], [82, 83, 71], [72, 73, 74, 0])\<rparr>)
           wing_world wing_y wing_x [] wing_tstep"
proof -
  have d: "self_data wing_world = Some wing_data" by (simp add: wing_world_def)
  have lin: "aero_linear wing_data = Some (empty_linear\<lparr>System := Some wing_system\<rparr>)"
    by (simp add: wing_data_def)
  have sys: "System (empty_linear\<lparr>System := Some wing_system\<rparr>) = Some wing_system" by simp
  have us4: "unpack_state (example_ext wing_system 4 3) wing_system wing_x []
              = Inr ([61, 62, 63, 64], [81, 82, 83], [71, 72, 73, 74])" by code_simp
  have us3: "unpack_state (example_ext wing_system 3 3) wing_system wing_x []
              = Inr ([61, 62, 63], [64, 81, 82], [83, 71, 72])" by code_simp
  have us5: "unpack_state (example_ext wing_system 5 3) wing_system wing_x []
              = Inr ([61, 62, 63, 64, 81], [82, 83, 71], [72, 73, 74, 0, 0])" by code_simp
  note c4 = unpack_ss_vectors_consumes [OF d lin sys us4, where t = wing_tstep]
  note c3 = unpack_ss_vectors_consumes [OF d lin sys us3, where t = wing_tstep and y_n = wing_y]
  note c5 = unpack_ss_vectors_consumes [OF d lin sys us5, where t = wing_tstep
      and y_n = "wing_y @ [999]"]
  have tz: "total_size (nat (n_surf wing_tstep)) (zeta wing_tstep) = 12"
    and tg: "total_size (nat (n_surf wing_tstep)) (gamma wing_tstep) = 4"
    and tgs: "total_size (nat (n_surf wing_tstep)) (gamma_star wing_tstep) = 3"
    by code_simp+
  have len: "length wing_y = 12" "length (butlast wing_y) = 11" by code_simp+
  have fz: "fits (map shape (zeta wing_tstep)) (zeta wing_tstep) wing_y (nat (n_surf wing_tstep))"
    and fz': "fits (map shape (zeta wing_tstep)) (zeta wing_tstep) (wing_y @ [999])
                (nat (n_surf wing_tstep))"
    and ne: "list_all (\<lambda>a. shape a \<noteq> []) (take (nat (n_surf wing_tstep)) (zeta wing_tstep))"
    by code_simp+
  have g4: "fits (aero_dimensions wing_data) (gamma wing_tstep) [61, 62, 63, 64 :: int]
             (nat (n_surf wing_tstep))"
    and gd4: "fits (aero_dimensions wing_data) (gamma wing_tstep) [71, 72, 73, 74 :: int]
              (nat (n_surf wing_tstep))"
    and gs4: "fits (aero_dimensions_star wing_data) (gamma_star wing_tstep) [81, 82, 83 :: int]
              (nat (n_surf wing_tstep))"
    by code_simp+
  have g5: "fits (aero_dimensions wing_data) (gamma wing_tstep) [61, 62, 63, 64, 81 :: int]
             (nat (n_surf wing_tstep))"
    and gd5: "fits (aero_dimensions wing_data) (gamma wing_tstep) [72, 73, 74, 0, 0 :: int]
              (nat (n_surf wing_tstep))"
    and gs5: "fits (aero_dimensions_star wing_data) (gamma_star wing_tstep) [82, 83, 71 :: int]
              (nat (n_surf wing_tstep))"
    by code_simp+
  have ag: "agree (aero_dimensions wing_data) (gamma wing_tstep) (nat (n_surf wing_tstep))"
    by code_simp
  have r4: "(map (unpacked_forces wing_y (zeta wing_tstep)) [0 ..< nat (n_surf wing_tstep)],
             map (unpacked (aero_dimensions wing_data) (gamma wing_tstep) [61, 62, 63, 64 :: int])
               [0 ..< nat (n_surf wing_tstep)],
             map (unpacked (aero_dimensions wing_data) (gamma wing_tstep) [71, 72, 73, 74 :: int])
               [0 ..< nat (n_surf wing_tstep)],
             map (unpacked (aero_dimensions_star wing_data) (gamma_star wing_tstep) [81, 82, 83 :: int])
               [0 ..< nat (n_surf wing_tstep)]) = wing_unpacked"
    by code_simp
  have r5: "(map (unpacked_forces (wing_y @ [999]) (zeta wing_tstep)) [0 ..< nat (n_surf wing_tstep)],
             map (unpacked (aero_dimensions wing_data) (gamma wing_tstep) [61, 62, 63, 64, 81 :: int])
               [0 ..< nat (n_surf wing_tstep)],
             map (unpacked (aero_dimensions wing_data) (gamma wing_tstep) [72, 73, 74, 0, 0 :: int])
               [0 ..< nat (n_surf wing_tstep)],
             map (unpacked (aero_dimensions_star wing_data) (gamma_star wing_tstep) [82, 83, 71 :: int])
               [0 ..< nat (n_surf wing_tstep)])
            = (fst wing_unpacked,
              [\<lparr>shape = [1, 2], elems = [61, 62]\<rparr>, \<lparr>shape = [2, 1], elems = [63, 64]\<rparr>],
              [\<lparr>shape = [1, 2], elems = [72, 73]\<rparr>, \<lparr>shape = [2, 1], elems = [74, 0]\<rparr>],
              [\<lparr>shape = [1, 2], elems = [82, 83]\<rparr>, \<lparr>shape = [1, 1], elems = [71]\<rparr>])"
    by code_simp
  have tk: "take 12 (wing_y @ [999]) = wing_y" by code_simp
  have a: "unpack_ss_vectors (example_ext wing_system 4 3) wing_world wing_y wing_x [] wing_tstep
             = Inr wing_unpacked"
    using c4 [where y_n = wing_y, THEN conjunct1] fz ne g4 gd4 gs4 by (simp only: r4)
  have b: "isl (unpack_ss_vectors (example_ext wing_system 4 3) wing_world (butlast wing_y) wing_x []
             wing_tstep)"
    using c4 [where y_n = "butlast wing_y", THEN conjunct2, THEN conjunct2, THEN conjunct1]
    by (simp add: tz len)
  have c: "isl (unpack_ss_vectors (example_ext wing_system 3 3) wing_world wing_y wing_x []
             wing_tstep)"
    using c3 [THEN conjunct2, THEN conjunct2, THEN conjunct2, THEN conjunct1] ag
    by (simp add: tg)
  have e: "unpack_ss_vectors (example_ext wing_system 5 3) wing_world (wing_y @ [999]) wing_x []
             wing_tstep
           = Inr (fst wing_unpacked,
              [\<lparr>shape = [1, 2], elems = [61, 62]\<rparr>, \<lparr>shape = [2, 1], elems = [63, 64]\<rparr>],
              [\<lparr>shape = [1, 2], elems = [72, 73]\<rparr>, \<lparr>shape = [2, 1], elems = [74, 0]\<rparr>],
              [\<lparr>shape = [1, 2], elems = [82, 83]\<rparr>, \<lparr>shape = [1, 1], elems = [71]\<rparr>])"
    using c5 [THEN conjunct1] fz' ne g5 gd5 gs5 by (simp only: r5)
  have f: "unpack_ss_vectors (example_ext wing_system 5 3) wing_world (wing_y @ [999]) wing_x []
        wing_tstep
       = unpack_ss_vectors
           ((example_ext wing_system 5 3)
              \<lparr>unpack_state := \<lambda>s x u. Inr ([61, 62, 63, 64], [82, 83, 71], [72, 73, 74, 0])\<rparr>)
           wing_world wing_y wing_x [] wing_tstep"
    using c5 [THEN conjunct2, THEN conjunct2, THEN conjunct2, THEN conjunct2, THEN conjunct2]
    by (simp add: tz tg tgs len)
  show ?thesis
    using a b c e f tz tg len(1) us3 us5 by simp
qed

text \<open>
  Claim C6 as stated fails: with one entry too many the call returns, and returns what it
  returns for the vector of the right length.
\<close>

theorem unpack_ss_vectors_surplus:
  "total_size (nat (n_surf wing_tstep)) (zeta wing_tstep) = 12
   \<and> length (wing_y @ [999]) = 13
   \<and> unpack_ss_vectors (example_ext wing_system 4 3) wing_world (wing_y @ [999]) wing_x []
        wing_tstep
      = Inr wing_unpacked"
  by code_simp

section \<open>Statements: helper lemmas\<close>

lemma sbind_expr:
  "sbind (expr f) g s = (case f s of Inl e \<Rightarrow> (Inl e, s) | Inr x \<Rightarrow> g x s)"
  by (simp add: sbind_def expr_def split: sum.splits)

lemma sbind_assign: "sbind (assign f) g s = g () (f s)"
  by (simp add: sbind_def assign_def)

lemma sbind_set_linear:
  "sbind (set_linear f) g s
     = (case the_linear s of Inl e \<Rightarrow> (Inl e, s) | Inr x \<Rightarrow> g () (update_linear f s))"
  by (simp add: set_linear_def sbind_def expr_def assign_def split: sum.splits)

lemma sbind_expr_Inr:
  "(sbind (expr f) g s = (Inr r, s')) = (\<exists>x. f s = Inr x \<and> g x s = (Inr r, s'))"
  by (cases "f s") (simp_all add: sbind_expr)

lemma expr_Inr: "(expr f s = (Inr r, s')) = (f s = Inr r \<and> s' = s)"
  by (auto simp: expr_def)

lemma update_tstep_reads [simp]:
  "the_data (update_tstep a f w) = the_data w"
  "the_settings (update_tstep a f w) = the_settings w"
  "the_generator (update_tstep a f w) = the_generator w"
  "the_linear (update_tstep a f w) = the_linear w"
  "self_data (update_tstep a f w) = self_data w"
  "self_settings (update_tstep a f w) = self_settings w"
  "self_velocity_generator (update_tstep a f w) = self_velocity_generator w"
  by (simp_all add: update_tstep_def the_data_def the_settings_def the_generator_def the_linear_def)

lemma heap_update_tstep: "heap (update_tstep a f w) = (heap w)(a := f (heap w a))"
  by (simp add: update_tstep_def)

lemma getitem_neg_last: "getitem_neg xs (Suc 0) = Inr x \<Longrightarrow> xs \<noteq> [] \<and> x = last xs"
  by (cases xs rule: rev_cases) (auto simp: getitem_neg_def split: if_splits)

lemma getitem_neg_2: "\<not> length xs < 2 \<Longrightarrow> getitem_neg xs 2 = Inr (xs ! (length xs - 2))"
  by (simp add: getitem_neg_def)

lemma fst_eq_pair: "fst p = a \<Longrightarrow> p = (a, snd p)"
  by (cases p) simp

section \<open>The first initialisation\<close>

text \<open>
  Line 175 of \<open>initialise\<close> reads the name \<open>gamma\<close>, which is bound neither in the function
  nor in the module: the first linearisation always ends in a \<open>NameError\<close>, whatever the
  collaborators do.
\<close>

lemma load_gamma: "load_name (initialise_scope u0 dt x0 f0) ''gamma'' = Inl NameError"
  by (simp add: load_name_def initialise_scope_def)

lemma linearise_raises: "fst (linearise ext w) \<noteq> Inr u"
  by (simp add: linearise_def sbind_expr sbind_assign sbind_set_linear load_gamma
      split: sum.splits)

lemma initialise_first_time_never_returns:
  assumes "aero_linear data' = None"
  shows "fst (initialise ext data' custom_settings w) \<noteq> Inr ()"
proof -
  have raise: "fst (sbind (\<lambda>w. case the_linear w of
                                  Inr _ \<Rightarrow> (Inr (), w)
                                | Inl e \<Rightarrow> if e = AttributeError then linearise ext w else (Inl e, w))
                     f s) \<noteq> Inr ()"
    if "self_data s = Some data'" for f s
  proof -
    have "the_linear s = Inl AttributeError"
      using that assms by (simp add: the_linear_def the_data_def)
    moreover obtain e s' where "linearise ext s = (Inl e, s')"
      using linearise_raises [of ext s "()"]
      by (cases "linearise ext s"; cases "fst (linearise ext s)") auto
    ultimately show ?thesis by (simp add: sbind_def)
  qed
  show ?thesis
    by (simp add: initialise_def sbind_expr sbind_assign raise split: sum.splits)
qed

text \<open>
  Claim C3 on the example.  With no linear system yet, \<open>initialise\<close> builds the operator and
  stores the reference triple (\<open>x_0\<close> from \<open>pack_state_vector\<close>, \<open>u_0\<close> from
  \<open>pack_input_vector\<close>, \<open>y_0\<close> from the first three force rows), and then raises
  \<open>NameError\<close> instead of completing: \<open>gamma_0\<close> is never stored and the velocity generator
  is never created.
\<close>

theorem initialise_first_time:
  "fst (initialise (example_ext (tiny_system True) 1 1) (tiny_data True) None fresh_world)
     = Inl NameError
   \<and> ebind (the_linear (snd (initialise (example_ext (tiny_system True) 1 1) (tiny_data True) None
                               fresh_world)))
        (\<lambda>lin. Inr (x_0 lin, u_0 lin, y_0 lin, gamma_0 lin))
     = Inr (Some [5, 7, 2, 3], Some [1, 2, 3, 0, 0, 0, 0, 0, 0], Some [10, 20, 30], None)
   \<and> self_velocity_generator
        (snd (initialise (example_ext (tiny_system True) 1 1) (tiny_data True) None fresh_world))
     = None"
  by code_simp

section \<open>What a step hands to the stepper\<close>

lemma run_inputs_InrD:
  assumes "run_inputs ext aero_tstep structure_tstep dt t w = (Inr inp, w')"
    and "self_data w = Some d" and "self_settings w = Some st" and "aero_linear d = Some lin"
  shows "current_tstep aero_tstep w = Inr (i_aero_tstep inp)"
    and "w' = update_tstep (i_aero_tstep inp)
                (\<lambda>s. s\<lparr>u_ext := u_ext (heap w' (i_aero_tstep inp))\<rparr>) w"
    and "pack_input_vector (heap w' (i_aero_tstep inp)) = Inr (i_u_n inp)"
    and "ebind (key (u_0 lin)) (np_sub (i_u_n inp)) = Inr (i_du_n inp)"
    and "(if s_remove_predictor st then
            ebind (getitem_neg (aero_timestep_info d) 1) (\<lambda>last.
            ebind (pack_input_vector (heap w' last)) (\<lambda>u_m1.
            ebind (key (u_0 lin)) (\<lambda>u0.
            ebind (np_sub u_m1 u0) (\<lambda>du_m1. Inr (Some du_m1)))))
          else Inr None) = Inr (i_du_m1 inp)"
    and "ebind (if length (aero_timestep_info d) < 2 then
                  pack_state_vector (heap w' (i_aero_tstep inp)) None
                    (case dt of None \<Rightarrow> s_dt st | Some v \<Rightarrow> v) (s_integr_order st)
                else
                  ebind (getitem_neg (aero_timestep_info d) 2) (\<lambda>prev.
                  pack_state_vector (heap w' (i_aero_tstep inp)) (Some (heap w' prev))
                    (case dt of None \<Rightarrow> s_dt st | Some v \<Rightarrow> v) (s_integr_order st)))
           (\<lambda>x_m1. ebind (key (x_0 lin)) (np_sub x_m1)) = Inr (i_dx_m1 inp)"
proof -
  note H = assms(1) [unfolded run_inputs_def sbind_expr_Inr sbind_assign expr_Inr]
  note defs = ebind_eq_Inr the_data_def the_settings_def the_linear_def
  show "current_tstep aero_tstep w = Inr (i_aero_tstep inp)"
    using H assms(2-4) by (clarsimp simp: defs)
  show "w' = update_tstep (i_aero_tstep inp)
                (\<lambda>s. s\<lparr>u_ext := u_ext (heap w' (i_aero_tstep inp))\<rparr>) w"
    using H assms(2-4) by (clarsimp simp: defs heap_update_tstep)
  show "pack_input_vector (heap w' (i_aero_tstep inp)) = Inr (i_u_n inp)"
    using H assms(2-4) by (clarsimp simp: defs)
  show "ebind (key (u_0 lin)) (np_sub (i_u_n inp)) = Inr (i_du_n inp)"
    using H assms(2-4) by (clarsimp simp: defs)
  show "(if s_remove_predictor st then
            ebind (getitem_neg (aero_timestep_info d) 1) (\<lambda>last.
            ebind (pack_input_vector (heap w' last)) (\<lambda>u_m1.
            ebind (key (u_0 lin)) (\<lambda>u0.
            ebind (np_sub u_m1 u0) (\<lambda>du_m1. Inr (Some du_m1)))))
          else Inr None) = Inr (i_du_m1 inp)"
    using H assms(2-4) by (cases "s_remove_predictor st") (clarsimp simp: defs)+
  show "ebind (if length (aero_timestep_info d) < 2 then
                  pack_state_vector (heap w' (i_aero_tstep inp)) None
                    (case dt of None \<Rightarrow> s_dt st | Some v \<Rightarrow> v) (s_integr_order st)
                else
                  ebind (getitem_neg (aero_timestep_info d) 2) (\<lambda>prev.
                  pack_state_vector (heap w' (i_aero_tstep inp)) (Some (heap w' prev))
                    (case dt of None \<Rightarrow> s_dt st | Some v \<Rightarrow> v) (s_integr_order st)))
           (\<lambda>x_m1. ebind (key (x_0 lin)) (np_sub x_m1)) = Inr (i_dx_m1 inp)"
    using H assms(2-4)
    by (cases "length (aero_timestep_info d) < 2") (clarsimp simp: defs split: option.splits)+
qed

lemma run_inputs_current:
  assumes "run_inputs ext aero_tstep structure_tstep dt t w = (Inr inp, w')"
  shows "current_tstep aero_tstep w = Inr (i_aero_tstep inp)"
  using assms [unfolded run_inputs_def sbind_expr_Inr sbind_assign expr_Inr]
  by (clarsimp simp: ebind_eq_Inr)

lemma run_inputs_no_current:
  assumes "current_tstep aero_tstep w = Inl e"
  shows "run_inputs ext aero_tstep structure_tstep dt t w = (Inl e, w)"
  using assms by (simp add: run_inputs_def sbind_expr)

lemma run_calls_stepper:
  assumes ok: "run_inputs ext aero_tstep structure_tstep dt t w = (Inr inp, w')"
    and d: "self_data w = Some d" and st: "self_settings w = Some st"
    and lin: "aero_linear d = Some lin" and sys: "System lin = Some sys"
  shows "run ext aero_tstep structure_tstep convect_wake dt t unsteady_contribution w
           = (case solve_step ext sys (i_dx_m1 inp) (i_du_m1 inp) (i_du_n inp) True of
                Inl e \<Rightarrow> (Inl e, w')
              | Inr (dx_n, dy_n) \<Rightarrow> run_outputs ext inp dx_n dy_n w')"
proof -
  have "the_linear w' = the_linear w"
    by (subst run_inputs_InrD(2) [OF ok d st lin]) simp
  then have "the_linear w' = Inr lin"
    using d lin by (simp add: the_linear_def the_data_def)
  then show ?thesis
    using ok sys
    by (simp add: run_def sbind_def run_solve_def expr_def key_def split: sum.splits prod.splits)
qed

lemma tiny_run_inputs:
  "fst (run_inputs (example_ext (tiny_system True) 1 1) None None None None (tiny_world True))
     = Inr (tiny_inputs True)"
  "fst (run_inputs (example_ext (tiny_system False) 1 1) None None None None (tiny_world False))
     = Inr (tiny_inputs False)"
  "fst (run_inputs (example_ext (tiny_system False) 1 1) None None None None single_world)
     = Inr ((tiny_inputs False)\<lparr>i_dx_m1 := [0, 0, 0, 0]\<rparr>)"
  by code_simp+

lemma tiny_facts:
  "self_data (tiny_world r) = Some ((tiny_data r)\<lparr>aero_linear := Some (tiny_linear r)\<rparr>)"
  "self_settings (tiny_world r) = Some (example_settings r)"
  "aero_linear ((tiny_data r)\<lparr>aero_linear := Some (tiny_linear r)\<rparr>) = Some (tiny_linear r)"
  "System (tiny_linear r) = Some (tiny_system r)"
  "x_0 (tiny_linear r) = Some [5, 7, 2, 3]"
  "u_0 (tiny_linear r) = Some [1, 2, 3, 0, 0, 0, 0, 0, 0]"
  "self_data single_world = Some single_data"
  "self_settings single_world = Some (example_settings False)"
  "aero_linear single_data = Some (tiny_linear False)"
  by (simp_all add: tiny_world_def tiny_linear_def empty_linear_def single_world_def single_data_def)

text \<open>
  Running the statements of \<open>run\<close> up to the packing of the state, when each of them succeeds:
  \<open>cur\<close> is the current snapshot, \<open>s'\<close> the structural snapshot, \<open>u'\<close> the velocity field the
  generator returns, \<open>u_n\<close> the packed input and \<open>du_n\<close> its difference from \<open>u_0\<close>, \<open>du_m1\<close>
  the previous-step input.  What remains is the packing of the state and its difference
  from \<open>x_0\<close>.
\<close>

lemma run_inputs_state:
  fixes ext :: "('a::ring_1, 'sys, 'ss, 'gen) Externals"
  assumes d: "self_data w = Some d" and st: "self_settings w = Some st"
    and g: "self_velocity_generator w = Some gen"
    and lin: "aero_linear d = Some lin" and u0: "u_0 lin = Some u0" and x0: "x_0 lin = Some x0"
    and cur: "current_tstep aero_tstep w = Inr cur"
    and str: "(case structure_tstep of
                 None \<Rightarrow> getitem_neg (structure_timestep_info d) 1
               | Some s \<Rightarrow> Inr s) = Inr s'"
    and gen: "generate ext gen
                \<lparr>p_zeta = zeta (heap w cur), p_override = True,
                 p_t = (case t of
                          None \<Rightarrow> of_int (ts d) * (case dt of None \<Rightarrow> s_dt st | Some v \<Rightarrow> v)
                        | Some v \<Rightarrow> v),
                 p_ts = ts d, p_dt = (case dt of None \<Rightarrow> s_dt st | Some v \<Rightarrow> v),
                 p_for_pos = for_pos s'\<rparr>
                (u_ext (heap w cur)) = Inr u'"
    and un: "pack_input_vector (heap (update_tstep cur (\<lambda>s. s\<lparr>u_ext := u'\<rparr>) w) cur) = Inr u_n"
    and dun: "np_sub u_n u0 = Inr du_n"
    and dum1: "(if s_remove_predictor st then
                  ebind (getitem_neg (aero_timestep_info d) 1) (\<lambda>last.
                  ebind (pack_input_vector (heap (update_tstep cur (\<lambda>s. s\<lparr>u_ext := u'\<rparr>) w) last))
                    (\<lambda>u_m1.
                  ebind (np_sub u_m1 u0) (\<lambda>du. Inr (Some du))))
                else Inr None) = Inr du_m1"
  shows "run_inputs ext aero_tstep structure_tstep dt t w
           = (case ebind (pack_state_vector (heap (update_tstep cur (\<lambda>s. s\<lparr>u_ext := u'\<rparr>) w) cur)
                            (if length (aero_timestep_info d) < 2 then None
                             else Some (heap (update_tstep cur (\<lambda>s. s\<lparr>u_ext := u'\<rparr>) w)
                                          (aero_timestep_info d ! (length (aero_timestep_info d) - 2))))
                            (case dt of None \<Rightarrow> s_dt st | Some v \<Rightarrow> v) (s_integr_order st))
                     (\<lambda>x_m1. np_sub x_m1 x0) of
                Inl e \<Rightarrow> (Inl e, update_tstep cur (\<lambda>s. s\<lparr>u_ext := u'\<rparr>) w)
              | Inr dx_m1 \<Rightarrow>
                  (Inr \<lparr>i_aero_tstep = cur, i_u_n = u_n, i_du_n = du_n, i_du_m1 = du_m1,
                        i_dx_m1 = dx_m1\<rparr>,
                   update_tstep cur (\<lambda>s. s\<lparr>u_ext := u'\<rparr>) w))"
proof -
  let ?w = "update_tstep cur (\<lambda>s. s\<lparr>u_ext := u'\<rparr>) w"
  have reads: "the_data w = Inr d" "the_settings w = Inr st" "the_generator w = Inr gen"
    "the_linear w = Inr lin" "key (u_0 lin) = Inr u0" "key (x_0 lin) = Inr x0"
    using d st g lin u0 x0
    by (simp_all add: the_data_def the_settings_def the_generator_def the_linear_def key_def)
  have dt': "(case dt of None \<Rightarrow> Inr (s_dt st) | Some v \<Rightarrow> Inr v)
               = Inr (case dt of None \<Rightarrow> s_dt st | Some v \<Rightarrow> v)"
    by (simp split: option.splits)
  have t': "(case t of None \<Rightarrow> Inr (of_int (ts d) * c) | Some v \<Rightarrow> Inr v)
               = Inr (case t of None \<Rightarrow> of_int (ts d) * c | Some v \<Rightarrow> v)" for c :: 'a
    by (simp split: option.splits)
  have xm: "(if length (aero_timestep_info d) < 2 then
               pack_state_vector (heap ?w cur) None dt0 io
             else
               ebind (getitem_neg (aero_timestep_info d) 2)
                 (\<lambda>prev. pack_state_vector (heap ?w cur) (Some (heap ?w prev)) dt0 io))
            = pack_state_vector (heap ?w cur)
                (if length (aero_timestep_info d) < 2 then None
                 else Some (heap ?w (aero_timestep_info d ! (length (aero_timestep_info d) - 2))))
                dt0 io" for dt0 io
    by (simp add: getitem_neg_2)
  show ?thesis
    unfolding run_inputs_def sbind_expr sbind_assign update_tstep_reads reads ebind.simps cur str
      dt' t' sum.case gen un dun dum1 xm expr_def
    by (simp split: sum.splits)
qed

lemma tiny_generator: "self_velocity_generator (tiny_world r) = Some 5"
  "self_velocity_generator single_world = Some 5"
  by (simp_all add: tiny_world_def single_world_def)

lemma tiny_run_inputs_passed:
  "fst (run_inputs (example_ext (tiny_system True) 1 1) (Some 0) None None None (tiny_world True))
     = Inr \<lparr>i_aero_tstep = 0, i_u_n = [1, 2, 3, 0, 0, 0, 5, 5, 5],
            i_du_n = [0, 0, 0, 0, 0, 0, 5, 5, 5], i_du_m1 = Some [0, 0, 0, 0, 0, 0, 0, 0, 0],
            i_dx_m1 = [- 1, 0, 0, 1]\<rparr>"
  by code_simp

text \<open>
  Claim C7 as the code has it.  When the statements of \<open>run\<close> before the packing of the state
  succeed, \<open>run\<close> packs the state at step \<open>n - 1\<close> from the current snapshot, which is the one
  passed in, or the last retained one when none is passed, together with the last but one
  retained snapshot when at least two snapshots are retained, and from the current
  snapshot alone (previous snapshot \<open>None\<close>, the backward difference) when fewer are.  If the
  packing or the subtraction of \<open>x_0\<close> raises, so does \<open>run\<close>.  Otherwise the difference is the
  first argument of the call of the stepper, and \<open>run\<close> goes on with what the stepper
  returns.
\<close>

theorem run_state_delta:
  fixes ext :: "('a::ring_1, 'sys, 'ss, 'gen) Externals"
  assumes d: "self_data w = Some d" and st: "self_settings w = Some st"
    and g: "self_velocity_generator w = Some gen"
    and lin: "aero_linear d = Some lin" and sys: "System lin = Some sys"
    and u0: "u_0 lin = Some u0" and x0: "x_0 lin = Some x0"
    and cur: "current_tstep aero_tstep w = Inr cur"
    and str: "(case structure_tstep of
                 None \<Rightarrow> getitem_neg (structure_timestep_info d) 1
               | Some s \<Rightarrow> Inr s) = Inr s'"
    and gen: "generate ext gen
                \<lparr>p_zeta = zeta (heap w cur), p_override = True,
                 p_t = (case t of
                          None \<Rightarrow> of_int (ts d) * (case dt of None \<Rightarrow> s_dt st | Some v \<Rightarrow> v)
                        | Some v \<Rightarrow> v),
                 p_ts = ts d, p_dt = (case dt of None \<Rightarrow> s_dt st | Some v \<Rightarrow> v),
                 p_for_pos = for_pos s'\<rparr>
                (u_ext (heap w cur)) = Inr u'"
    and un: "pack_input_vector (heap (update_tstep cur (\<lambda>s. s\<lparr>u_ext := u'\<rparr>) w) cur) = Inr u_n"
    and dun: "np_sub u_n u0 = Inr du_n"
    and dum1: "(if s_remove_predictor st then
                  ebind (getitem_neg (aero_timestep_info d) 1) (\<lambda>last.
                  ebind (pack_input_vector (heap (update_tstep cur (\<lambda>s. s\<lparr>u_ext := u'\<rparr>) w) last))
                    (\<lambda>u_m1.
                  ebind (np_sub u_m1 u0) (\<lambda>du. Inr (Some du))))
                else Inr None) = Inr du_m1"
  shows "run ext aero_tstep structure_tstep convect_wake dt t unsteady_contribution w
           = (case ebind (pack_state_vector (heap (update_tstep cur (\<lambda>s. s\<lparr>u_ext := u'\<rparr>) w) cur)
                            (if length (aero_timestep_info d) < 2 then None
                             else Some (heap (update_tstep cur (\<lambda>s. s\<lparr>u_ext := u'\<rparr>) w)
                                          (aero_timestep_info d ! (length (aero_timestep_info d) - 2))))
                            (case dt of None \<Rightarrow> s_dt st | Some v \<Rightarrow> v) (s_integr_order st))
                     (\<lambda>x_m1. np_sub x_m1 x0) of
                Inl e \<Rightarrow> (Inl e, update_tstep cur (\<lambda>s. s\<lparr>u_ext := u'\<rparr>) w)
              | Inr dx_m1 \<Rightarrow>
                  (case solve_step ext sys dx_m1 du_m1 du_n True of
                     Inl e \<Rightarrow> (Inl e, update_tstep cur (\<lambda>s. s\<lparr>u_ext := u'\<rparr>) w)
                   | Inr (dx_n, dy_n) \<Rightarrow>
                       run_outputs ext
                         \<lparr>i_aero_tstep = cur, i_u_n = u_n, i_du_n = du_n, i_du_m1 = du_m1,
                          i_dx_m1 = dx_m1\<rparr>
                         dx_n dy_n (update_tstep cur (\<lambda>s. s\<lparr>u_ext := u'\<rparr>) w)))"
proof -
  have "the_linear (update_tstep cur (\<lambda>s. s\<lparr>u_ext := u'\<rparr>) w) = Inr lin"
    using d lin by (simp add: the_linear_def the_data_def)
  then show ?thesis
    using sys
    by (simp add: run_def sbind_def run_solve_def expr_def key_def
        run_inputs_state [OF d st g lin u0 x0 cur str gen un dun dum1]
        split: sum.splits prod.splits)
qed

theorem run_state_delta_witness:
  "pack_state_vector
     (heap (update_tstep 1 (\<lambda>s. s\<lparr>u_ext := [\<lparr>shape = [3, 1, 1], elems = [5, 5, 5]\<rparr>]\<rparr>)
              (tiny_world True)) 1)
     (Some (heap (update_tstep 1 (\<lambda>s. s\<lparr>u_ext := [\<lparr>shape = [3, 1, 1], elems = [5, 5, 5]\<rparr>]\<rparr>)
                    (tiny_world True)) 0))
     1 2 = Inr [5, 7, 2, 4]
   \<and> run (example_ext (tiny_system True) 1 1) None None False None None False (tiny_world True)
       = (case solve_step (example_ext (tiny_system True) 1 1) (tiny_system True)
                 [0, 0, 0, 1] (Some [0, 0, 0, 0, 0, 0, 5, 5, 5]) [0, 0, 0, 0, 0, 0, 5, 5, 5] True of
            Inl e \<Rightarrow>
              (Inl e, update_tstep 1 (\<lambda>s. s\<lparr>u_ext := [\<lparr>shape = [3, 1, 1], elems = [5, 5, 5]\<rparr>]\<rparr>)
                        (tiny_world True))
          | Inr (dx_n, dy_n) \<Rightarrow>
              run_outputs (example_ext (tiny_system True) 1 1) (tiny_inputs True) dx_n dy_n
                (update_tstep 1 (\<lambda>s. s\<lparr>u_ext := [\<lparr>shape = [3, 1, 1], elems = [5, 5, 5]\<rparr>]\<rparr>)
                   (tiny_world True)))
   \<and> pack_state_vector
     (heap (update_tstep 1 (\<lambda>s. s\<lparr>u_ext := [\<lparr>shape = [3, 1, 1], elems = [5, 5, 5]\<rparr>]\<rparr>)
              single_world) 1)
     None 1 2 = Inr [5, 7, 2, 3]
   \<and> run (example_ext (tiny_system False) 1 1) None None False None None False single_world
       = (case solve_step (example_ext (tiny_system False) 1 1) (tiny_system False)
                 [0, 0, 0, 0] None [0, 0, 0, 0, 0, 0, 5, 5, 5] True of
            Inl e \<Rightarrow>
              (Inl e, update_tstep 1 (\<lambda>s. s\<lparr>u_ext := [\<lparr>shape = [3, 1, 1], elems = [5, 5, 5]\<rparr>]\<rparr>)
                        single_world)
          | Inr (dx_n, dy_n) \<Rightarrow>
              run_outputs (example_ext (tiny_system False) 1 1)
                ((tiny_inputs False)\<lparr>i_dx_m1 := [0, 0, 0, 0]\<rparr>) dx_n dy_n
                (update_tstep 1 (\<lambda>s. s\<lparr>u_ext := [\<lparr>shape = [3, 1, 1], elems = [5, 5, 5]\<rparr>]\<rparr>)
                   single_world))"
proof -
  let ?u = "[\<lparr>shape = [3, 1, 1], elems = [5, 5, 5]\<rparr>] :: int ndarray list"
  let ?s = "\<lparr>for_pos = [0, 0, 0]\<rparr> :: int StructTimeStepInfo"
  let ?d = "(tiny_data True)\<lparr>aero_linear := Some (tiny_linear True)\<rparr>"
  let ?W = "update_tstep 1 (\<lambda>s. s\<lparr>u_ext := ?u\<rparr>) (tiny_world True)"
  let ?V = "update_tstep 1 (\<lambda>s. s\<lparr>u_ext := ?u\<rparr>) single_world"
  have cur: "current_tstep None (tiny_world True) = Inr 1" by code_simp
  have str: "(case None :: int StructTimeStepInfo option of
                None \<Rightarrow> getitem_neg (structure_timestep_info ?d) 1
              | Some s \<Rightarrow> Inr s) = Inr ?s" by code_simp
  have gen: "generate (example_ext (tiny_system True) 1 1) 5
                \<lparr>p_zeta = zeta (heap (tiny_world True) 1), p_override = True,
                 p_t = (case None :: int option of
                          None \<Rightarrow> of_int (ts ?d)
                                  * (case None :: int option of
                                       None \<Rightarrow> s_dt (example_settings True) | Some v \<Rightarrow> v)
                        | Some v \<Rightarrow> v),
                 p_ts = ts ?d,
                 p_dt = (case None :: int option of
                           None \<Rightarrow> s_dt (example_settings True) | Some v \<Rightarrow> v),
                 p_for_pos = for_pos ?s\<rparr>
                (u_ext (heap (tiny_world True) 1)) = Inr ?u" by code_simp
  have un: "pack_input_vector (heap ?W 1) = Inr [1, 2, 3, 0, 0, 0, 5, 5, 5]" by code_simp
  have dun: "np_sub [1, 2, 3, 0, 0, 0, 5, 5, 5] [1, 2, 3, 0, 0, 0, 0, 0, 0 :: int]
               = Inr [0, 0, 0, 0, 0, 0, 5, 5, 5]" by code_simp
  have dum1: "(if s_remove_predictor (example_settings True) then
                  ebind (getitem_neg (aero_timestep_info ?d) 1) (\<lambda>last.
                  ebind (pack_input_vector (heap ?W last)) (\<lambda>u_m1.
                  ebind (np_sub u_m1 [1, 2, 3, 0, 0, 0, 0, 0, 0]) (\<lambda>du. Inr (Some du))))
                else Inr None) = Inr (Some [0, 0, 0, 0, 0, 0, 5, 5, 5])" by code_simp
  have pk: "pack_state_vector (heap ?W 1) (Some (heap ?W 0)) 1 2 = Inr [5, 7, 2, 4]" by code_simp
  have pk': "ebind (pack_state_vector (heap ?W 1)
                      (if length (aero_timestep_info ?d) < 2 then None
                       else Some (heap ?W (aero_timestep_info ?d ! (length (aero_timestep_info ?d) - 2))))
                      (case None :: int option of
                         None \<Rightarrow> s_dt (example_settings True) | Some v \<Rightarrow> v)
                      (s_integr_order (example_settings True)))
                (\<lambda>x_m1. np_sub x_m1 [5, 7, 2, 3]) = Inr [0, 0, 0, 1]" by code_simp
  note a = run_state_delta [OF tiny_facts(1,2) tiny_generator(1) tiny_facts(3,4,6,5) cur str gen un
      dun dum1, where convect_wake = False and unsteady_contribution = False]
  have cur2: "current_tstep None single_world = Inr 1" by code_simp
  have str2: "(case None :: int StructTimeStepInfo option of
                None \<Rightarrow> getitem_neg (structure_timestep_info single_data) 1
              | Some s \<Rightarrow> Inr s) = Inr ?s" by code_simp
  have gen2: "generate (example_ext (tiny_system False) 1 1) 5
                \<lparr>p_zeta = zeta (heap single_world 1), p_override = True,
                 p_t = (case None :: int option of
                          None \<Rightarrow> of_int (ts single_data)
                                  * (case None :: int option of
                                       None \<Rightarrow> s_dt (example_settings False) | Some v \<Rightarrow> v)
                        | Some v \<Rightarrow> v),
                 p_ts = ts single_data,
                 p_dt = (case None :: int option of
                           None \<Rightarrow> s_dt (example_settings False) | Some v \<Rightarrow> v),
                 p_for_pos = for_pos ?s\<rparr>
                (u_ext (heap single_world 1)) = Inr ?u" by code_simp
  have un2: "pack_input_vector (heap ?V 1) = Inr [1, 2, 3, 0, 0, 0, 5, 5, 5]" by code_simp
  have dum2: "(if s_remove_predictor (example_settings False) then
                  ebind (getitem_neg (aero_timestep_info single_data) 1) (\<lambda>last.
                  ebind (pack_input_vector (heap ?V last)) (\<lambda>u_m1.
                  ebind (np_sub u_m1 [1, 2, 3, 0, 0, 0, 0, 0, 0]) (\<lambda>du. Inr (Some du))))
                else Inr None) = Inr None" by code_simp
  have pk2: "pack_state_vector (heap ?V 1) None 1 2 = Inr [5, 7, 2, 3]" by code_simp
  have pk2': "ebind (pack_state_vector (heap ?V 1)
                      (if length (aero_timestep_info single_data) < 2 then None
                       else Some (heap ?V (aero_timestep_info single_data
                                            ! (length (aero_timestep_info single_data) - 2))))
                      (case None :: int option of
                         None \<Rightarrow> s_dt (example_settings False) | Some v \<Rightarrow> v)
                      (s_integr_order (example_settings False)))
                (\<lambda>x_m1. np_sub x_m1 [5, 7, 2, 3]) = Inr [0, 0, 0, 0]" by code_simp
  note b = run_state_delta [OF tiny_facts(7,8) tiny_generator(2) tiny_facts(9,4,6,5) cur2 str2 gen2
      un2 dun dum2, where convect_wake = False and unsteady_contribution = False]
  have i1: "tiny_inputs True = \<lparr>i_aero_tstep = 1, i_u_n = [1, 2, 3, 0, 0, 0, 5, 5, 5],
      i_du_n = [0, 0, 0, 0, 0, 0, 5, 5, 5], i_du_m1 = Some [0, 0, 0, 0, 0, 0, 5, 5, 5],
      i_dx_m1 = [0, 0, 0, 1]\<rparr>"
    and i2: "(tiny_inputs False)\<lparr>i_dx_m1 := [0, 0, 0, 0]\<rparr> = \<lparr>i_aero_tstep = 1,
      i_u_n = [1, 2, 3, 0, 0, 0, 5, 5, 5],
      i_du_n = [0, 0, 0, 0, 0, 0, 5, 5, 5], i_du_m1 = None, i_dx_m1 = [0, 0, 0, 0]\<rparr>"
    by (simp_all add: tiny_inputs_def)
  show ?thesis
    using a b pk pk2 by (simp only: pk' pk2' sum.case i1 i2 simp_thms)
qed

text \<open>
  Claim C7 as stated fails.  Snapshots 0 and 1 are retained, snapshot 1 being the most
  recent.  When \<open>run\<close> is passed snapshot 0, the state is packed from snapshot 0 twice and
  the stepper gets \<open>[-1, 0, 0, 1]\<close>; the two most recent retained snapshots give
  \<open>[0, 0, 0, 1]\<close>.
\<close>

theorem run_state_passed_snapshot:
  "map_option aero_timestep_info (self_data (tiny_world True)) = Some [0, 1]
   \<and> fst (run_inputs (example_ext (tiny_system True) 1 1) (Some 0) None None None (tiny_world True))
       = Inr \<lparr>i_aero_tstep = 0, i_u_n = [1, 2, 3, 0, 0, 0, 5, 5, 5],
              i_du_n = [0, 0, 0, 0, 0, 0, 5, 5, 5], i_du_m1 = Some [0, 0, 0, 0, 0, 0, 0, 0, 0],
              i_dx_m1 = [- 1, 0, 0, 1]\<rparr>
   \<and> ebind (pack_state_vector
               (heap (snd (run_inputs (example_ext (tiny_system True) 1 1) (Some 0) None None None
                             (tiny_world True))) 1)
               (Some (heap (snd (run_inputs (example_ext (tiny_system True) 1 1) (Some 0) None None
                                   None (tiny_world True))) 0))
               1 2)
        (\<lambda>x_m1. np_sub x_m1 [5, 7, 2, 3]) = Inr [0, 0, 0, 1]
   \<and> run (example_ext (tiny_system True) 1 1) (Some 0) None False None None False (tiny_world True)
       = (case solve_step (example_ext (tiny_system True) 1 1) (tiny_system True)
                 [- 1, 0, 0, 1] (Some [0, 0, 0, 0, 0, 0, 0, 0, 0]) [0, 0, 0, 0, 0, 0, 5, 5, 5] True of
            Inl e \<Rightarrow>
              (Inl e, snd (run_inputs (example_ext (tiny_system True) 1 1) (Some 0) None None None
                             (tiny_world True)))
          | Inr (dx_n, dy_n) \<Rightarrow>
              run_outputs (example_ext (tiny_system True) 1 1)
                \<lparr>i_aero_tstep = 0, i_u_n = [1, 2, 3, 0, 0, 0, 5, 5, 5],
                 i_du_n = [0, 0, 0, 0, 0, 0, 5, 5, 5], i_du_m1 = Some [0, 0, 0, 0, 0, 0, 0, 0, 0],
                 i_dx_m1 = [- 1, 0, 0, 1]\<rparr>
                dx_n dy_n
                (snd (run_inputs (example_ext (tiny_system True) 1 1) (Some 0) None None None
                        (tiny_world True))))"
proof -
  have a: "map_option aero_timestep_info (self_data (tiny_world True)) = Some [0, 1]"
    by code_simp
  have b: "ebind (pack_state_vector
               (heap (snd (run_inputs (example_ext (tiny_system True) 1 1) (Some 0) None None None
                             (tiny_world True))) 1)
               (Some (heap (snd (run_inputs (example_ext (tiny_system True) 1 1) (Some 0) None None
                                   None (tiny_world True))) 0))
               1 2)
        (\<lambda>x_m1. np_sub x_m1 [5, 7, 2, 3]) = Inr [0, 0, 0, 1]"
    by code_simp
  note c = run_calls_stepper [OF fst_eq_pair [OF tiny_run_inputs_passed] tiny_facts(1,2,3,4),
      where convect_wake = False and unsteady_contribution = False]
  show ?thesis
    using a b c tiny_run_inputs_passed by simp
qed

section \<open>The previous-step input\<close>

text \<open>
  When no snapshot is passed to \<open>run\<close>, the current snapshot is the last retained one, the
  very snapshot line 280 packs as the previous step: with \<open>remove_predictor\<close> set, the
  previous-step input handed to the stepper is the current-step input.
\<close>

lemma run_default_previous_is_current:
  fixes ext :: "('a::ring_1, 'sys, 'ss, 'gen) Externals"
  assumes d: "self_data w = Some d" and st: "self_settings w = Some st"
    and g: "self_velocity_generator w = Some gen"
    and lin: "aero_linear d = Some lin" and u0: "u_0 lin = Some u0" and x0: "x_0 lin = Some x0"
    and rp: "s_remove_predictor st"
    and cur: "current_tstep None w = Inr cur"
    and str: "(case structure_tstep of
                 None \<Rightarrow> getitem_neg (structure_timestep_info d) 1
               | Some s \<Rightarrow> Inr s) = Inr s'"
    and gen: "generate ext gen
                \<lparr>p_zeta = zeta (heap w cur), p_override = True,
                 p_t = (case t of
                          None \<Rightarrow> of_int (ts d) * (case dt of None \<Rightarrow> s_dt st | Some v \<Rightarrow> v)
                        | Some v \<Rightarrow> v),
                 p_ts = ts d, p_dt = (case dt of None \<Rightarrow> s_dt st | Some v \<Rightarrow> v),
                 p_for_pos = for_pos s'\<rparr>
                (u_ext (heap w cur)) = Inr u'"
    and un: "pack_input_vector (heap (update_tstep cur (\<lambda>s. s\<lparr>u_ext := u'\<rparr>) w) cur) = Inr u_n"
    and dun: "np_sub u_n u0 = Inr du_n"
  shows "run_inputs ext None structure_tstep dt t w
           = (case ebind (pack_state_vector (heap (update_tstep cur (\<lambda>s. s\<lparr>u_ext := u'\<rparr>) w) cur)
                            (if length (aero_timestep_info d) < 2 then None
                             else Some (heap (update_tstep cur (\<lambda>s. s\<lparr>u_ext := u'\<rparr>) w)
                                          (aero_timestep_info d ! (length (aero_timestep_info d) - 2))))
                            (case dt of None \<Rightarrow> s_dt st | Some v \<Rightarrow> v) (s_integr_order st))
                     (\<lambda>x_m1. np_sub x_m1 x0) of
                Inl e \<Rightarrow> (Inl e, update_tstep cur (\<lambda>s. s\<lparr>u_ext := u'\<rparr>) w)
              | Inr dx_m1 \<Rightarrow>
                  (Inr \<lparr>i_aero_tstep = cur, i_u_n = u_n, i_du_n = du_n, i_du_m1 = Some du_n,
                        i_dx_m1 = dx_m1\<rparr>,
                   update_tstep cur (\<lambda>s. s\<lparr>u_ext := u'\<rparr>) w))"
proof -
  have "getitem_neg (aero_timestep_info d) 1 = Inr cur"
    using cur d by (simp add: current_tstep_def the_data_def)
  then have "(if s_remove_predictor st then
                  ebind (getitem_neg (aero_timestep_info d) 1) (\<lambda>last.
                  ebind (pack_input_vector (heap (update_tstep cur (\<lambda>s. s\<lparr>u_ext := u'\<rparr>) w) last))
                    (\<lambda>u_m1.
                  ebind (np_sub u_m1 u0) (\<lambda>du. Inr (Some du))))
                else Inr None) = Inr (Some du_n)"
    using rp un dun by simp
  then show ?thesis
    by (rule run_inputs_state [OF d st g lin u0 x0 cur str gen un dun])
qed

text \<open>
  Claim C8 on the example.  Snapshots 0 and 1 are retained and \<open>remove_predictor\<close> is set.
  Called without a snapshot, \<open>run\<close> hands the stepper \<open>[0, 0, 0, 0, 0, 0, 5, 5, 5]\<close> both as
  the current-step and as the previous-step input, although the input of the previous
  snapshot differs from \<open>u_0\<close> by nothing.
\<close>

theorem run_default_previous_input:
  "map_option aero_timestep_info (self_data (tiny_world True)) = Some [0, 1]
   \<and> map_option s_remove_predictor (self_settings (tiny_world True)) = Some True
   \<and> fst (run_inputs (example_ext (tiny_system True) 1 1) None None None None (tiny_world True))
       = Inr \<lparr>i_aero_tstep = 1, i_u_n = [1, 2, 3, 0, 0, 0, 5, 5, 5],
              i_du_n = [0, 0, 0, 0, 0, 0, 5, 5, 5], i_du_m1 = Some [0, 0, 0, 0, 0, 0, 5, 5, 5],
              i_dx_m1 = [0, 0, 0, 1]\<rparr>
   \<and> ebind (pack_input_vector
               (heap (snd (run_inputs (example_ext (tiny_system True) 1 1) None None None None
                             (tiny_world True))) 0))
        (\<lambda>u_m1. np_sub u_m1 [1, 2, 3, 0, 0, 0, 0, 0, 0]) = Inr [0, 0, 0, 0, 0, 0, 0, 0, 0]
   \<and> run (example_ext (tiny_system True) 1 1) None None False None None False (tiny_world True)
       = (case solve_step (example_ext (tiny_system True) 1 1) (tiny_system True)
                 [0, 0, 0, 1] (Some [0, 0, 0, 0, 0, 0, 5, 5, 5]) [0, 0, 0, 0, 0, 0, 5, 5, 5] True of
            Inl e \<Rightarrow>
              (Inl e, snd (run_inputs (example_ext (tiny_system True) 1 1) None None None None
                             (tiny_world True)))
          | Inr (dx_n, dy_n) \<Rightarrow>
              run_outputs (example_ext (tiny_system True) 1 1)
                \<lparr>i_aero_tstep = 1, i_u_n = [1, 2, 3, 0, 0, 0, 5, 5, 5],
                 i_du_n = [0, 0, 0, 0, 0, 0, 5, 5, 5], i_du_m1 = Some [0, 0, 0, 0, 0, 0, 5, 5, 5],
                 i_dx_m1 = [0, 0, 0, 1]\<rparr>
                dx_n dy_n
                (snd (run_inputs (example_ext (tiny_system True) 1 1) None None None None
                        (tiny_world True))))"
proof -
  have a: "map_option aero_timestep_info (self_data (tiny_world True)) = Some [0, 1]"
    "map_option s_remove_predictor (self_settings (tiny_world True)) = Some True"
    by code_simp+
  have b: "ebind (pack_input_vector
               (heap (snd (run_inputs (example_ext (tiny_system True) 1 1) None None None None
                             (tiny_world True))) 0))
        (\<lambda>u_m1. np_sub u_m1 [1, 2, 3, 0, 0, 0, 0, 0, 0]) = Inr [0, 0, 0, 0, 0, 0, 0, 0, 0]"
    by code_simp
  have i: "tiny_inputs True = \<lparr>i_aero_tstep = 1, i_u_n = [1, 2, 3, 0, 0, 0, 5, 5, 5],
      i_du_n = [0, 0, 0, 0, 0, 0, 5, 5, 5], i_du_m1 = Some [0, 0, 0, 0, 0, 0, 5, 5, 5],
      i_dx_m1 = [0, 0, 0, 1]\<rparr>"
    by (simp add: tiny_inputs_def)
  note r = tiny_run_inputs(1) [unfolded i]
  note c = run_calls_stepper [OF fst_eq_pair [OF r] tiny_facts(1,2,3,4),
      where convect_wake = False and unsteady_contribution = False]
  show ?thesis
    using a b c r by simp
qed

section \<open>What a step changes\<close>

lemma frame_refl: "frame cur w w"
  by (simp add: frame_def)

lemma frame_trans: "frame cur w w1 \<Longrightarrow> frame cur w1 w2 \<Longrightarrow> frame cur w w2"
  by (simp add: frame_def)

lemma frame_sbind:
  assumes "\<And>s. frame cur s (snd (m s))" and "\<And>x s. frame cur s (snd (f x s))"
  shows "frame cur s (snd (sbind m f s))"
proof (cases "m s")
  case (Pair r s1)
  have 1: "frame cur s s1" using assms(1) [of s] Pair by simp
  show ?thesis
  proof (cases r)
    case (Inl e)
    with Pair 1 show ?thesis by (simp add: sbind_def)
  next
    case (Inr x)
    have "frame cur s1 (snd (f x s1))" by (rule assms(2))
    with 1 have "frame cur s (snd (f x s1))" by (rule frame_trans)
    with Pair Inr show ?thesis by (simp add: sbind_def)
  qed
qed

lemma frame_expr: "frame cur s (snd (expr f s))"
  by (simp add: expr_def frame_refl)

lemma frame_assign:
  "frame cur s (snd (assign (update_tstep cur (\<lambda>t. t\<lparr>u_ext := a\<rparr>)) s))"
  "frame cur s (snd (assign (update_tstep cur (\<lambda>t. t\<lparr>forces := a\<rparr>)) s))"
  "frame cur s (snd (assign (update_tstep cur (\<lambda>t. t\<lparr>gamma := a\<rparr>)) s))"
  "frame cur s (snd (assign (update_tstep cur (\<lambda>t. t\<lparr>gamma_dot := a\<rparr>)) s))"
  "frame cur s (snd (assign (update_tstep cur (\<lambda>t. t\<lparr>gamma_star := a\<rparr>)) s))"
  by (simp_all add: assign_def frame_def update_tstep_def)

lemma run_outputs_frame: "frame (i_aero_tstep inp) w (snd (run_outputs ext inp dx_n dy_n w))"
  unfolding run_outputs_def
  by (intro frame_sbind frame_expr frame_assign | simp add: split_beta)+

lemma run_inputs_frame:
  assumes "current_tstep aero_tstep w = Inr cur"
  shows "frame cur w (snd (run_inputs ext aero_tstep structure_tstep dt t w))"
proof -
  have "run_inputs ext aero_tstep structure_tstep dt t w
          = sbind (expr (\<lambda>w. Inr cur)) (\<lambda>aero_tstep'.
     sbind (expr (\<lambda>w. case structure_tstep of
                         None \<Rightarrow> ebind (the_data w) (\<lambda>d. getitem_neg (structure_timestep_info d) 1)
                       | Some s \<Rightarrow> Inr s)) (\<lambda>structure_tstep'.
     sbind (expr (\<lambda>w. case dt of
                         None \<Rightarrow> ebind (the_settings w) (\<lambda>st. Inr (s_dt st))
                       | Some v \<Rightarrow> Inr v)) (\<lambda>dt'.
     sbind (expr (\<lambda>w. case t of
                         None \<Rightarrow> ebind (the_data w) (\<lambda>d. Inr (of_int (ts d) * dt'))
                       | Some v \<Rightarrow> Inr v)) (\<lambda>t'.
     sbind (expr (\<lambda>w. ebind (the_settings w) (\<lambda>st. Inr (s_integr_order st)))) (\<lambda>integr_order.
     sbind (expr (\<lambda>w. ebind (the_generator w) (\<lambda>gen. ebind (the_data w) (\<lambda>d.
              generate ext gen
                \<lparr>p_zeta = zeta (heap w aero_tstep'), p_override = True, p_t = t', p_ts = ts d,
                 p_dt = dt', p_for_pos = for_pos structure_tstep'\<rparr>
                (u_ext (heap w aero_tstep')))))) (\<lambda>u_ext'.
     sbind (assign (update_tstep cur (\<lambda>s. s\<lparr>u_ext := u_ext'\<rparr>))) (\<lambda>_.
     sbind (expr (\<lambda>w. pack_input_vector (heap w aero_tstep'))) (\<lambda>u_n.
     sbind (expr (\<lambda>w. ebind (the_linear w) (\<lambda>lin. ebind (key (u_0 lin)) (np_sub u_n)))) (\<lambda>du_n.
     sbind (expr (\<lambda>w. ebind (the_settings w) (\<lambda>st.
              if s_remove_predictor st then
                ebind (the_data w) (\<lambda>d.
                ebind (getitem_neg (aero_timestep_info d) 1) (\<lambda>last.
                ebind (pack_input_vector (heap w last)) (\<lambda>u_m1.
                ebind (the_linear w) (\<lambda>lin.
                ebind (key (u_0 lin)) (\<lambda>u0.
                ebind (np_sub u_m1 u0) (\<lambda>du_m1. Inr (Some du_m1)))))))
              else Inr None))) (\<lambda>du_m1.
     sbind (expr (\<lambda>w. ebind (the_data w) (\<lambda>d.
              if length (aero_timestep_info d) < 2 then
                pack_state_vector (heap w aero_tstep') None dt' integr_order
              else
                ebind (getitem_neg (aero_timestep_info d) 2) (\<lambda>prev.
                pack_state_vector (heap w aero_tstep') (Some (heap w prev)) dt' integr_order)))) (\<lambda>x_m1.
     sbind (expr (\<lambda>w. ebind (the_linear w) (\<lambda>lin. ebind (key (x_0 lin)) (np_sub x_m1)))) (\<lambda>dx_m1.
     expr (\<lambda>w. Inr \<lparr>i_aero_tstep = aero_tstep', i_u_n = u_n, i_du_n = du_n, i_du_m1 = du_m1,
                     i_dx_m1 = dx_m1\<rparr>))))))))))))) w"
    using assms by (simp add: run_inputs_def sbind_expr)
  then show ?thesis
    by (simp only:) (intro frame_sbind frame_expr frame_assign)
qed

lemma tiny_run:
  "ebind (the_linear (snd (run (example_ext (tiny_system True) 1 1) None None False None None False
                              (tiny_world True))))
     (\<lambda>lin. Inr (System lin, SS lin, x_0 lin, u_0 lin, y_0 lin))
   = Inr (Some (tiny_system True), Some (sys_SS (tiny_system True)),
          Some [5, 7, 2, 3], Some [1, 2, 3, 0, 0, 0, 0, 0, 0], Some [10, 20, 30])"
  "heap (snd (run (example_ext (tiny_system True) 1 1) None None False None None False
                (tiny_world True))) 1
   = tiny_tstep\<lparr>u_ext := [\<lparr>shape = [3, 1, 1], elems = [5, 5, 5]\<rparr>],
                 forces := [\<lparr>shape = [6, 1, 1], elems = [11, 21, 31, 0, 0, 0]\<rparr>],
                 gamma := [\<lparr>shape = [1, 1], elems = [6]\<rparr>],
                 gamma_dot := [\<lparr>shape = [1, 1], elems = [3]\<rparr>],
                 gamma_star := [\<lparr>shape = [1, 1], elems = [8]\<rparr>]\<rparr>"
  "current_tstep None (tiny_world True) = Inr 1"
  by code_simp+

text \<open>
  Claim C9 as the code has it.  Whether it returns or raises, \<open>run\<close> leaves the data object
  and with it the linear system state (operator and reference triple), the settings and
  the generator as they were, and every snapshot other than the current one; of the
  current snapshot it changes nothing but the external velocity, which the velocity
  generator fills, and the forces and the three circulation fields.
\<close>

theorem run_frame:
  "(case current_tstep aero_tstep w of
      Inl e \<Rightarrow>
        run ext aero_tstep structure_tstep convect_wake dt t unsteady_contribution w = (Inl e, w)
    | Inr cur \<Rightarrow>
        frame cur w
          (snd (run ext aero_tstep structure_tstep convect_wake dt t unsteady_contribution w)))
   \<and> the_linear (snd (run ext aero_tstep structure_tstep convect_wake dt t unsteady_contribution w))
       = the_linear w"
proof -
  let ?run = "run ext aero_tstep structure_tstep convect_wake dt t unsteady_contribution w"
  have a: "?run = (Inl e, w)" if "current_tstep aero_tstep w = Inl e" for e
    using run_inputs_no_current [OF that] by (simp add: run_def sbind_def)
  have b: "frame cur w (snd ?run)" if cur: "current_tstep aero_tstep w = Inr cur" for cur
  proof (cases "run_inputs ext aero_tstep structure_tstep dt t w")
    case (Pair r w1)
    have 1: "frame cur w w1"
      using run_inputs_frame [OF cur, of ext structure_tstep dt t] Pair by simp
    show ?thesis
    proof (cases r)
      case (Inl e)
      with Pair 1 show ?thesis by (simp add: run_def sbind_def)
    next
      case (Inr inp)
      have "current_tstep aero_tstep w = Inr (i_aero_tstep inp)"
        using Pair Inr by (intro run_inputs_current) simp
      with cur have c: "i_aero_tstep inp = cur" by simp
      have "frame cur w1 (snd (sbind (run_solve ext inp)
                                  (\<lambda>(dx_n, dy_n). run_outputs ext inp dx_n dy_n) w1))"
        unfolding run_solve_def
        by (intro frame_sbind frame_expr | simp add: split_beta c [symmetric] run_outputs_frame)+
      with 1 have "frame cur w (snd (sbind (run_solve ext inp)
                                  (\<lambda>(dx_n, dy_n). run_outputs ext inp dx_n dy_n) w1))"
        by (rule frame_trans)
      with Pair Inr show ?thesis by (simp add: run_def sbind_def)
    qed
  qed
  have "self_data (snd ?run) = self_data w"
  proof (cases "current_tstep aero_tstep w")
    case (Inl e)
    then show ?thesis using a by simp
  next
    case (Inr cur)
    then show ?thesis using b [of cur] by (simp add: frame_def)
  qed
  then have "the_linear (snd ?run) = the_linear w"
    by (simp add: the_linear_def the_data_def)
  then show ?thesis
    using a b by (simp split: sum.splits)
qed

theorem run_frame_witness:
  "ebind (the_linear (snd (run (example_ext (tiny_system True) 1 1) None None False None None False
                              (tiny_world True))))
     (\<lambda>lin. Inr (System lin, SS lin, x_0 lin, u_0 lin, y_0 lin))
   = Inr (Some (tiny_system True), Some (sys_SS (tiny_system True)),
          Some [5, 7, 2, 3], Some [1, 2, 3, 0, 0, 0, 0, 0, 0], Some [10, 20, 30])
   \<and> heap (snd (run (example_ext (tiny_system True) 1 1) None None False None None False
                   (tiny_world True))) 0 = tiny_prev
   \<and> zeta (heap (snd (run (example_ext (tiny_system True) 1 1) None None False None None False
                         (tiny_world True))) 1) = zeta tiny_tstep
   \<and> forces (heap (snd (run (example_ext (tiny_system True) 1 1) None None False None None False
                           (tiny_world True))) 1)
      = [\<lparr>shape = [6, 1, 1], elems = [11, 21, 31, 0, 0, 0]\<rparr>]"
  using run_frame [where aero_tstep = None and w = "tiny_world True"
      and ext = "example_ext (tiny_system True) 1 1" and structure_tstep = None
      and convect_wake = False and dt = None and t = None and unsteady_contribution = False]
    tiny_run
  by (simp add: frame_def tiny_world_def tiny_heap_def tiny_linear_def empty_linear_def
      the_linear_def the_data_def)

text \<open>
  Claim C9 as stated fails: a step that returns has also overwritten the external velocity
  of the current snapshot.
\<close>

theorem run_overwrites_u_ext:
  "u_ext (heap (tiny_world True) 1) = [\<lparr>shape = [3, 1, 1], elems = [0, 0, 0]\<rparr>]
   \<and> u_ext (heap (snd (run (example_ext (tiny_system True) 1 1) None None False None None False
                          (tiny_world True))) 1)
      = [\<lparr>shape = [3, 1, 1], elems = [5, 5, 5]\<rparr>]
   \<and> \<not> isl (fst (run (example_ext (tiny_system True) 1 1) None None False None None False
                      (tiny_world True)))"
  by code_simp

end
